theory Spec2Isabelle
  imports Complex_Main "HOL-Library.Word" "HOL-Library.AList"
begin

section \<open>The feedback wizard of \<^verbatim>\<open>src/components/ReviewHub.tsx\<close>\<close>

text \<open>
  The component \<^verbatim>\<open>ReviewHub\<close> keeps eight pieces of React state and changes them in
  event handlers and two effects. Each handler is a function from the state before
  the event to the state after it; the browser (local storage, \<^verbatim>\<open>JSON\<close>,
  \<^verbatim>\<open>Date\<close>, \<^verbatim>\<open>fetch\<close>, \<^verbatim>\<open>FileReader\<close>) is passed in explicitly.
\<close>

subsection \<open>Strings\<close>

text \<open>
  A JavaScript string is a sequence of 16-bit code units, and the regular expression of
  \<^verbatim>\<open>validateField\<close> (no \<^verbatim>\<open>u\<close> flag) works on code units. String literals of the
  source are written \<open>lit ''...''\<close>.
\<close>

type_synonym jschar = "16 word"
type_synonym jsstring = "jschar list"

definition ch :: "char \<Rightarrow> jschar" where
  "ch c = of_nat (of_char c)"

definition lit :: "string \<Rightarrow> jsstring" where
  "lit s = map ch s"

subsection \<open>Regular expressions\<close>

text \<open>
  The pattern of the source is \<^verbatim>\<open>/^[^\s@]+@[^\s@]+\.[^\s@]+$/\<close>. The class \<^verbatim>\<open>\s\<close> of
  ECMAScript is white space and line terminators: U+0009 to U+000D, U+0020, U+00A0,
  U+1680, U+2000 to U+200A, U+2028, U+2029, U+202F, U+205F, U+3000 and U+FEFF.
\<close>

definition isSpace :: "jschar \<Rightarrow> bool" where
  "isSpace c \<longleftrightarrow>
     (0x0009 \<le> c \<and> c \<le> 0x000D) \<or> c = 0x0020 \<or> c = 0x00A0 \<or> c = 0x1680 \<or>
     (0x2000 \<le> c \<and> c \<le> 0x200A) \<or> c = 0x2028 \<or> c = 0x2029 \<or> c = 0x202F \<or>
     c = 0x205F \<or> c = 0x3000 \<or> c = 0xFEFF"

datatype cclass = Space | Ch jschar

fun class_has :: "cclass \<Rightarrow> jschar \<Rightarrow> bool" where
  "class_has Space c = isSpace c"
| "class_has (Ch d) c = (c = d)"

text \<open>
  \<open>NotIn\<close> is a negated class \<^verbatim>\<open>[^...]\<close>, \<open>Lit\<close> one literal character. \<open>Never\<close>,
  \<open>Eps\<close> and \<open>Alt\<close> do not occur in the source's pattern; the matcher needs them for
  the derivatives.
\<close>

datatype regex =
    Never
  | Eps
  | Lit jschar
  | NotIn "cclass list"
  | Seq regex regex
  | Alt regex regex
  | Star regex

definition Plus :: "regex \<Rightarrow> regex" where
  "Plus r = Seq r (Star r)"

fun nullable :: "regex \<Rightarrow> bool" where
  "nullable Never = False"
| "nullable Eps = True"
| "nullable (Lit d) = False"
| "nullable (NotIn ks) = False"
| "nullable (Seq r s) = (nullable r \<and> nullable s)"
| "nullable (Alt r s) = (nullable r \<or> nullable s)"
| "nullable (Star r) = True"

fun deriv :: "jschar \<Rightarrow> regex \<Rightarrow> regex" where
  "deriv c Never = Never"
| "deriv c Eps = Never"
| "deriv c (Lit d) = (if c = d then Eps else Never)"
| "deriv c (NotIn ks) = (if list_ex (\<lambda>k. class_has k c) ks then Never else Eps)"
| "deriv c (Seq r s) =
     (if nullable r then Alt (Seq (deriv c r) s) (deriv c s) else Seq (deriv c r) s)"
| "deriv c (Alt r s) = Alt (deriv c r) (deriv c s)"
| "deriv c (Star r) = Seq (deriv c r) (Star r)"

fun matches :: "regex \<Rightarrow> jsstring \<Rightarrow> bool" where
  "matches r [] = nullable r"
| "matches r (c # cs) = matches (deriv c r) cs"

text \<open>
  \<^verbatim>\<open>RegExp.prototype.test\<close> looks for a match anywhere in the string; the pattern of the
  source is anchored at both ends with \<^verbatim>\<open>^\<close> and \<^verbatim>\<open>$\<close> (no \<^verbatim>\<open>m\<close> flag), so the
  whole string has to match.
\<close>

definition regex_test :: "regex \<Rightarrow> jsstring \<Rightarrow> bool" where
  "regex_test r s = matches r s"

definition notSpaceAt :: regex where
  "notSpaceAt = NotIn [Space, Ch (ch CHR ''@'')]"

definition emailRegex :: regex where
  "emailRegex =
     Seq (Plus notSpaceAt) (Seq (Lit (ch CHR ''@''))
       (Seq (Plus notSpaceAt) (Seq (Lit (ch CHR ''.'')) (Plus notSpaceAt))))"

text \<open>The words a regular expression denotes, to say what \<open>matches\<close> decides.\<close>

definition conc :: "jsstring set \<Rightarrow> jsstring set \<Rightarrow> jsstring set" where
  "conc A B = {u @ v | u v. u \<in> A \<and> v \<in> B}"

inductive_set star :: "jsstring set \<Rightarrow> jsstring set" for A :: "jsstring set" where
  star_nil: "[] \<in> star A"
| star_app: "u \<in> A \<Longrightarrow> v \<in> star A \<Longrightarrow> u @ v \<in> star A"

fun lang :: "regex \<Rightarrow> jsstring set" where
  "lang Never = {}"
| "lang Eps = {[]}"
| "lang (Lit d) = {[d]}"
| "lang (NotIn ks) = {[c] | c. \<not> list_ex (\<lambda>k. class_has k c) ks}"
| "lang (Seq r s) = conc (lang r) (lang s)"
| "lang (Alt r s) = lang r \<union> lang s"
| "lang (Star r) = star (lang r)"

subsection \<open>State\<close>

datatype PageType = landing | short_review | testimonial_deepdive | success

text \<open>
  \<^verbatim>\<open>FormData\<close> is an object with string values, \<^verbatim>\<open>errors\<close> an object whose values are
  a message or \<^verbatim>\<open>null\<close>. An object is the list of its properties in insertion order,
  each key once; \<open>map_of\<close> reads a property (\<open>None\<close> is \<^verbatim>\<open>undefined\<close>) and
  \<open>AList.update\<close> writes one, in place when the key exists and at the end otherwise.
\<close>

type_synonym FormData = "(jsstring \<times> jsstring) list"
type_synonym Errors = "(jsstring \<times> jsstring option) list"

record UploadedFile =
  name :: jsstring
  type' :: jsstring
  size' :: nat
  data :: jsstring

record wizard =
  currentPage :: PageType
  formData :: FormData
  errors :: Errors
  isSubmitting :: bool
  submitError :: "jsstring option"
  draftSaved :: bool
  uploadedFile :: "UploadedFile option"
  rating :: nat

definition initial :: wizard where
  "initial = \<lparr> currentPage = landing, formData = [], errors = [], isSubmitting = False,
      submitError = None, draftSaved = False, uploadedFile = None, rating = 0 \<rparr>"

subsection \<open>Field validation and editing\<close>

definition validateField :: "jsstring \<Rightarrow> jsstring \<Rightarrow> bool \<Rightarrow> jsstring option" where
  "validateField fieldId val required =
     (if required \<and> val = [] then Some (lit ''This field is required'')
      else if fieldId = lit ''email'' \<and> val \<noteq> [] \<and> \<not> regex_test emailRegex val
        then Some (lit ''Please enter a valid email'')
      else None)"

definition handleInputChange :: "jsstring \<Rightarrow> jsstring \<Rightarrow> wizard \<Rightarrow> wizard" where
  "handleInputChange fieldId val s =
     s\<lparr> formData := AList.update fieldId val (formData s),
        errors := AList.update fieldId (validateField fieldId val True) (errors s) \<rparr>"

text \<open>
  The specification describes the pattern in words: local part, \<^verbatim>\<open>@\<close>, domain, each
  non-empty, no white space, a dot in the domain. \<open>emailShape_spec\<close> follows these words,
  to be compared with what the pattern of the source accepts; \<open>parts_at c s\<close> lists the
  ways to cut \<open>s\<close> at an occurrence of \<open>c\<close>.
\<close>

fun parts_at :: "jschar \<Rightarrow> jsstring \<Rightarrow> (jsstring \<times> jsstring) list" where
  "parts_at c [] = []"
| "parts_at c (x # xs) =
     (if x = c then [([], xs)] else []) @ map (\<lambda>(l, d). (x # l, d)) (parts_at c xs)"

definition emailShape_spec :: "jsstring \<Rightarrow> bool" where
  "emailShape_spec val \<longleftrightarrow>
     list_ex (\<lambda>(l, d). l \<noteq> [] \<and> d \<noteq> [] \<and> ch CHR ''.'' \<in> set d) (parts_at (ch CHR ''@'') val) \<and>
     list_all (\<lambda>c. \<not> isSpace c) val"

subsection \<open>File upload\<close>

text \<open>
  The \<^verbatim>\<open>File\<close> the input element hands over: its name, its declared type, its size
  and its content. \<^verbatim>\<open>FileReader.readAsDataURL\<close> is the browser's: by the File API the
  result is \<^verbatim>\<open>data:\<close>, the type, \<^verbatim>\<open>;base64,\<close> and the content in base64 (RFC 4648,
  with padding). The handler casts the result to a string (\<^verbatim>\<open>reader.result as string\<close>);
  a read that fails is not part of this model.
\<close>

record File =
  file_name :: jsstring
  file_type :: jsstring
  file_size :: nat
  file_bytes :: "8 word list"

definition b64chars :: string where
  "b64chars = ''ABCDEFGHIJKLMNOPQRSTUVWXYZabcdefghijklmnopqrstuvwxyz0123456789+/''"

definition b64char :: "nat \<Rightarrow> jschar" where
  "b64char n = ch (b64chars ! n)"

fun base64 :: "8 word list \<Rightarrow> jsstring" where
  "base64 (a # b # c # rest) =
     (let n = unat a * 65536 + unat b * 256 + unat c
      in b64char (n div 262144) # b64char (n div 4096 mod 64) #
         b64char (n div 64 mod 64) # b64char (n mod 64) # base64 rest)"
| "base64 [a, b] =
     (let n = unat a * 65536 + unat b * 256
      in [b64char (n div 262144), b64char (n div 4096 mod 64),
          b64char (n div 64 mod 64), ch CHR ''=''])"
| "base64 [a] =
     (let n = unat a * 65536
      in [b64char (n div 262144), b64char (n div 4096 mod 64), ch CHR ''='', ch CHR ''=''])"
| "base64 [] = []"

definition readAsDataURL :: "File \<Rightarrow> jsstring" where
  "readAsDataURL file = lit ''data:'' @ file_type file @ lit '';base64,'' @ base64 (file_bytes file)"

text \<open>
  Reading a data URL back, to say that the content can be recovered from it: the type
  is what stands between \<^verbatim>\<open>data:\<close> and the first semicolon, the content is the base64
  text after \<^verbatim>\<open>;base64,\<close>.
\<close>

fun index_of :: "'a \<Rightarrow> 'a list \<Rightarrow> nat option" where
  "index_of x [] = None"
| "index_of x (y # ys) = (if x = y then Some 0 else map_option Suc (index_of x ys))"

definition b64val :: "jschar \<Rightarrow> nat option" where
  "b64val c = index_of c (lit b64chars)"

fun unbase64 :: "jsstring \<Rightarrow> 8 word list option" where
  "unbase64 [] = Some []"
| "unbase64 (w # x # y # z # rest) =
     (case (b64val w, b64val x) of
        (Some p, Some q) \<Rightarrow>
          if y = ch CHR ''='' \<and> z = ch CHR ''='' \<and> rest = []
          then Some [of_nat ((p * 64 + q) div 16)]
          else (case b64val y of
             None \<Rightarrow> None
           | Some r \<Rightarrow>
               if z = ch CHR ''='' \<and> rest = []
               then (let n = (p * 64 + q) * 64 + r
                     in Some [of_nat (n div 1024), of_nat (n div 4 mod 256)])
               else (case b64val z of
                  None \<Rightarrow> None
                | Some t \<Rightarrow>
                    (let n = ((p * 64 + q) * 64 + r) * 64 + t
                     in map_option
                          (\<lambda>bs. of_nat (n div 65536) # of_nat (n div 256 mod 256) #
                                of_nat (n mod 256) # bs)
                          (unbase64 rest))))
      | _ \<Rightarrow> None)"
| "unbase64 _ = None"

definition dataURL_decode :: "jsstring \<Rightarrow> (jsstring \<times> 8 word list) option" where
  "dataURL_decode u =
     (if take 5 u = lit ''data:''
      then (let rest = drop 5 u;
                mime = takeWhile (\<lambda>c. c \<noteq> ch CHR '';'') rest;
                tail = dropWhile (\<lambda>c. c \<noteq> ch CHR '';'') rest
            in if take 8 tail = lit '';base64,''
               then map_option (Pair mime) (unbase64 (drop 8 tail))
               else None)
      else None)"

definition validTypes :: "jsstring list" where
  "validTypes = [lit ''image/jpeg'', lit ''image/png'', lit ''image/svg+xml'']"

definition maxSize :: nat where
  "maxSize = 5 * 1024 * 1024"

text \<open>
  \<^verbatim>\<open>handleFileUpload\<close> has a synchronous part, which either records a message under
  \<^verbatim>\<open>errors.logo\<close> or starts the reader, and the reader's \<^verbatim>\<open>onloadend\<close> callback. The
  synchronous part returns the state and the file given to the reader, if any.
\<close>

definition onloadend :: "File \<Rightarrow> jsstring \<Rightarrow> wizard \<Rightarrow> wizard" where
  "onloadend file result s =
     s\<lparr> uploadedFile := Some \<lparr> name = file_name file, type' = file_type file,
                               size' = file_size file, data = result \<rparr>,
        errors := AList.update (lit ''logo'') None (errors s) \<rparr>"

definition handleFileUpload :: "File option \<Rightarrow> wizard \<Rightarrow> wizard \<times> File option" where
  "handleFileUpload selected s =
     (case selected of
        None \<Rightarrow> (s, None)
      | Some file \<Rightarrow>
          if file_type file \<notin> set validTypes
          then (s\<lparr> errors := AList.update (lit ''logo'')
                     (Some (lit ''Please upload JPG, PNG, or SVG only'')) (errors s) \<rparr>, None)
          else if file_size file > maxSize
          then (s\<lparr> errors := AList.update (lit ''logo'')
                     (Some (lit ''File must be under 5MB'')) (errors s) \<rparr>, None)
          else (s, Some file))"

text \<open>The whole upload when nothing happens between the selection and the end of the read.\<close>

definition upload :: "File option \<Rightarrow> wizard \<Rightarrow> wizard" where
  "upload selected s =
     (case handleFileUpload selected s of
        (s', None) \<Rightarrow> s'
      | (s', Some file) \<Rightarrow> onloadend file (readAsDataURL file) s')"

subsection \<open>JSON values and the browser\<close>

text \<open>
  The values \<^verbatim>\<open>JSON.parse\<close> returns and \<^verbatim>\<open>JSON.stringify\<close> takes. The functions of the
  browser the component calls are parameters: \<open>JSON_parse\<close> returns the value or the
  error it throws; \<open>Date_getTime x\<close> is \<^verbatim>\<open>new Date(x).getTime()\<close>, where the argument
  \<open>None\<close> is \<^verbatim>\<open>undefined\<close> and the result \<open>None\<close> is \<^verbatim>\<open>NaN\<close>; \<open>toISOString t\<close> is
  \<^verbatim>\<open>new Date(t).toISOString()\<close> for the time \<open>t\<close> in milliseconds since the epoch.
\<close>

datatype json =
    JNull
  | JBool bool
  | JNum rat
  | JStr jsstring
  | JArr "json list"
  | JObj "(jsstring \<times> json) list"

datatype jsError = SyntaxError | TypeError

record platform =
  JSON_stringify :: "json \<Rightarrow> jsstring"
  JSON_parse :: "jsstring \<Rightarrow> jsError + json"
  toISOString :: "int \<Rightarrow> jsstring"
  Date_getTime :: "json option \<Rightarrow> int option"

type_synonym localStorage = "jsstring \<rightharpoonup> jsstring"

subsection \<open>The draft\<close>

definition draftKey :: jsstring where
  "draftKey = lit ''testimonial_draft''"

definition formJson :: "FormData \<Rightarrow> json" where
  "formJson fd = JObj (map (\<lambda>(k, v). (k, JStr v)) fd)"

definition draftJson :: "FormData \<Rightarrow> jsstring \<Rightarrow> json" where
  "draftJson fd ts = JObj [(lit ''data'', formJson fd), (lit ''timestamp'', JStr ts)]"

text \<open>
  The auto-save effect runs after a render in which \<^verbatim>\<open>formData\<close> or \<^verbatim>\<open>currentPage\<close>
  changed. It starts a timer of three seconds that holds the \<^verbatim>\<open>formData\<close> of that
  render; the cleanup of the next run cancels it. \<open>autoSave\<close> is the timer the effect
  starts, \<open>autoSave_timeout\<close> the timer's callback at the time \<open>now\<close>, and
  \<open>draftSaved_timeout\<close> the inner timer, two seconds later.
\<close>

definition autoSave :: "wizard \<Rightarrow> FormData option" where
  "autoSave s =
     (if currentPage s = testimonial_deepdive \<and> length (map fst (formData s)) > 0
      then Some (formData s) else None)"

definition autoSave_timeout ::
  "platform \<Rightarrow> int \<Rightarrow> FormData \<Rightarrow> localStorage \<times> wizard \<Rightarrow> localStorage \<times> wizard" where
  "autoSave_timeout P now fd = (\<lambda>(ls, s).
     (ls(draftKey \<mapsto> JSON_stringify P (draftJson fd (toISOString P now))),
      s\<lparr> draftSaved := True \<rparr>))"

definition draftSaved_timeout :: "wizard \<Rightarrow> wizard" where
  "draftSaved_timeout s = s\<lparr> draftSaved := False \<rparr>"

text \<open>
  The effect that loads the draft on mount. \<^verbatim>\<open>const { data, timestamp } = ...\<close> throws a
  \<^verbatim>\<open>TypeError\<close> on \<^verbatim>\<open>null\<close> and gives \<^verbatim>\<open>undefined\<close> for a property the value does
  not have. The effect has no \<^verbatim>\<open>try\<close>: what \<^verbatim>\<open>JSON.parse\<close> or the destructuring throws
  leaves the effect.
\<close>

fun destructure :: "json \<Rightarrow> jsError + (json option \<times> json option)" where
  "destructure JNull = Inl TypeError"
| "destructure (JObj props) = Inr (map_of props (lit ''data''), map_of props (lit ''timestamp''))"
| "destructure _ = Inr (None, None)"

datatype loaded = Threw jsError | NoCall | SetFormData "json option"

definition loadDraft :: "platform \<Rightarrow> localStorage \<Rightarrow> int \<Rightarrow> loaded" where
  "loadDraft P ls now =
     (case ls draftKey of
        None \<Rightarrow> NoCall
      | Some draft \<Rightarrow>
          if draft = [] then NoCall
          else (case JSON_parse P draft of
             Inl e \<Rightarrow> Threw e
           | Inr parsed \<Rightarrow>
               (case destructure parsed of
                  Inl e \<Rightarrow> Threw e
                | Inr (stored, timestamp) \<Rightarrow>
                    (case Date_getTime P timestamp of
                       None \<Rightarrow> NoCall
                     | Some t \<Rightarrow>
                         if now - t < 24 * 60 * 60 * 1000 then SetFormData stored
                         else NoCall))))"

text \<open>
  \<^verbatim>\<open>setFormData(data)\<close> takes whatever was stored. The state of this model holds a
  \<^verbatim>\<open>FormData\<close>, an object of strings; \<open>Untyped\<close> is the outcome where the stored
  \<^verbatim>\<open>data\<close> is something else.
\<close>

fun strings_of :: "(jsstring \<times> json) list \<Rightarrow> FormData option" where
  "strings_of [] = Some []"
| "strings_of ((k, JStr v) # props) = map_option (Cons (k, v)) (strings_of props)"
| "strings_of _ = None"

fun asFormData :: "json option \<Rightarrow> FormData option" where
  "asFormData (Some (JObj props)) = strings_of props"
| "asFormData _ = None"

datatype 'a outcome = Returns 'a | Throws jsError | Untyped "json option"

definition mount ::
  "platform \<Rightarrow> int \<Rightarrow> localStorage \<times> wizard \<Rightarrow> (localStorage \<times> wizard) outcome" where
  "mount P now = (\<lambda>(ls, s).
     (case loadDraft P ls now of
        Threw e \<Rightarrow> Throws e
      | NoCall \<Rightarrow> Returns (ls, s)
      | SetFormData d \<Rightarrow>
          (case asFormData d of
             None \<Rightarrow> Untyped d
           | Some fd \<Rightarrow> Returns (ls, s\<lparr> formData := fd \<rparr>))))"

subsection \<open>Submission\<close>

text \<open>
  An object literal is built property by property; \<^verbatim>\<open>...formData\<close> copies the
  properties of \<^verbatim>\<open>formData\<close> in their order.
\<close>

definition spread :: "('k \<times> 'v) list \<Rightarrow> ('k \<times> 'v) list \<Rightarrow> ('k \<times> 'v) list" where
  "spread src obj = fold (\<lambda>(k, v). AList.update k v) src obj"

definition ratingJson :: "nat \<Rightarrow> json" where
  "ratingJson r = (if r = 0 then JNull else JNum (of_nat r))"

definition fileJson :: "UploadedFile option \<Rightarrow> json" where
  "fileJson f =
     (case f of
        None \<Rightarrow> JNull
      | Some u \<Rightarrow> JObj [(lit ''name'', JStr (name u)), (lit ''type'', JStr (type' u)),
                        (lit ''size'', JNum (of_nat (size' u))), (lit ''data'', JStr (data u))])"

text \<open>The payload of \<^verbatim>\<open>src/components/ReviewHub.tsx\<close>.\<close>

definition payload ::
  "jsstring \<Rightarrow> jsstring \<Rightarrow> jsstring \<Rightarrow> jsstring \<Rightarrow> wizard \<Rightarrow> (jsstring \<times> json) list" where
  "payload formType submittedAt userAgent referrer s =
     AList.update (lit ''referrer'') (JStr referrer)
    (AList.update (lit ''userAgent'') (JStr userAgent)
    (AList.update (lit ''file'') (fileJson (uploadedFile s))
    (AList.update (lit ''rating'') (ratingJson (rating s))
    (spread (map (\<lambda>(k, v). (k, JStr v)) (formData s))
       [(lit ''reviewType'', JStr formType), (lit ''submittedAt'', JStr submittedAt)]))))"

text \<open>The payload of the second copy of the component (\<^verbatim>\<open>part_000\<close>).\<close>

definition payload_part_000 ::
  "jsstring \<Rightarrow> jsstring \<Rightarrow> jsstring \<Rightarrow> jsstring \<Rightarrow> wizard \<Rightarrow> (jsstring \<times> json) list" where
  "payload_part_000 formType submittedAt userAgent referrer s =
     [(lit ''formType'', JStr formType),
      (lit ''submittedAt'', JStr submittedAt),
      (lit ''data'', JObj (AList.update (lit ''rating'') (ratingJson (rating s))
                            (spread (map (\<lambda>(k, v). (k, JStr v)) (formData s)) []))),
      (lit ''file'', fileJson (uploadedFile s)),
      (lit ''metadata'', JObj [(lit ''userAgent'', JStr userAgent),
                               (lit ''referrer'', JStr referrer)])]"

text \<open>
  What \<^verbatim>\<open>await fetch(...)\<close> comes back with: a rejected promise, or a response with its
  status. \<^verbatim>\<open>response.ok\<close> is true for the statuses 200 to 299.
\<close>

datatype fetched = Rejected | Response int

fun ok :: "fetched \<Rightarrow> bool" where
  "ok Rejected = False"
| "ok (Response status) = (200 \<le> status \<and> status \<le> 299)"

text \<open>
  \<^verbatim>\<open>handleSubmit\<close> runs up to the \<^verbatim>\<open>await\<close> (\<open>handleSubmit_begin\<close>), and goes on when the
  promise settles (\<open>handleSubmit_settle\<close>). The payload is built from the state of the
  render in which the button was clicked.
\<close>

definition handleSubmit_begin :: "wizard \<Rightarrow> wizard" where
  "handleSubmit_begin s = s\<lparr> isSubmitting := True, submitError := None \<rparr>"

definition handleSubmit_settle ::
  "jsstring \<Rightarrow> fetched \<Rightarrow> localStorage \<times> wizard \<Rightarrow> localStorage \<times> wizard" where
  "handleSubmit_settle formType response = (\<lambda>(ls, s).
     if ok response
     then (ls(draftKey := None),
           s\<lparr> currentPage := success,
              formData := AList.update (lit ''formType'') formType (formData s),
              isSubmitting := False \<rparr>)
     else (ls, s\<lparr> submitError :=
                    Some (lit ''Unable to submit. Please check your connection and try again.''),
                  isSubmitting := False \<rparr>))"

text \<open>
  The whole submission when nothing else happens while the request is under way.
  \<open>fetch\<close> maps the body of the request to what comes back.
\<close>

record client =
  Date_now :: int
  navigator_userAgent :: jsstring
  document_referrer :: jsstring

definition body :: "platform \<Rightarrow> client \<Rightarrow> jsstring \<Rightarrow> wizard \<Rightarrow> jsstring" where
  "body P c formType s =
     JSON_stringify P (JObj (payload formType (toISOString P (Date_now c))
        (navigator_userAgent c) (document_referrer c) s))"

definition handleSubmit ::
  "platform \<Rightarrow> client \<Rightarrow> (jsstring \<Rightarrow> fetched) \<Rightarrow> jsstring \<Rightarrow>
     localStorage \<times> wizard \<Rightarrow> localStorage \<times> wizard" where
  "handleSubmit P c fetch formType = (\<lambda>(ls, s).
     handleSubmit_settle formType (fetch (body P c formType s)) (ls, handleSubmit_begin s))"

subsection \<open>Navigation\<close>

text \<open>
  The component renders one page at a time, and a button can be clicked only on the
  page that shows it. These are the buttons that change the page: the two track buttons
  on the landing page, Back on the two forms, Return Home on the success page.
\<close>

datatype button = ShortReviewButton | DeepDiveButton | BackButton | ReturnHomeButton

fun rendered :: "PageType \<Rightarrow> button \<Rightarrow> bool" where
  "rendered landing b = (b = ShortReviewButton \<or> b = DeepDiveButton)"
| "rendered short_review b = (b = BackButton)"
| "rendered testimonial_deepdive b = (b = BackButton)"
| "rendered success b = (b = ReturnHomeButton)"

fun onClick :: "button \<Rightarrow> wizard \<Rightarrow> wizard" where
  "onClick ShortReviewButton s = s\<lparr> currentPage := short_review \<rparr>"
| "onClick DeepDiveButton s = s\<lparr> currentPage := testimonial_deepdive \<rparr>"
| "onClick BackButton s = s\<lparr> currentPage := landing \<rparr>"
| "onClick ReturnHomeButton s =
     s\<lparr> currentPage := landing, formData := [], rating := 0, uploadedFile := None \<rparr>"

definition click :: "button \<Rightarrow> wizard \<Rightarrow> wizard" where
  "click b s = (if rendered (currentPage s) b then onClick b s else s)"

subsection \<open>A browser\<close>

text \<open>
  One platform to run the component on: JSON text by the grammar of RFC 8259, with numbers
  read as exact rationals, and ISO 8601 time stamps. \<open>parse_value\<close> takes a number of
  steps it may use; every step consumes a character, so more steps than characters are
  enough. Numbers are written in plain decimal notation with at most twenty digits after
  the point; the component writes no number but a rating and a size in bytes.
\<close>

definition isDigit :: "jschar \<Rightarrow> bool" where
  "isDigit c \<longleftrightarrow> ch CHR ''0'' \<le> c \<and> c \<le> ch CHR ''9''"

definition digitVal :: "jschar \<Rightarrow> nat" where
  "digitVal c = unat c - 48"

definition digitsVal :: "jsstring \<Rightarrow> nat" where
  "digitsVal ds = foldl (\<lambda>n c. n * 10 + digitVal c) 0 ds"

definition hexVal :: "jschar \<Rightarrow> nat option" where
  "hexVal c =
     (if isDigit c then Some (unat c - 48)
      else if ch CHR ''a'' \<le> c \<and> c \<le> ch CHR ''f'' then Some (unat c - 87)
      else if ch CHR ''A'' \<le> c \<and> c \<le> ch CHR ''F'' then Some (unat c - 55)
      else None)"

definition isJsonSpace :: "jschar \<Rightarrow> bool" where
  "isJsonSpace c \<longleftrightarrow> c = 0x20 \<or> c = 0x09 \<or> c = 0x0A \<or> c = 0x0D"

definition skipSpace :: "jsstring \<Rightarrow> jsstring" where
  "skipSpace cs = dropWhile isJsonSpace cs"

definition unescape :: "jschar \<Rightarrow> jschar option" where
  "unescape e =
     (if e = ch CHR ''\"'' \<or> e = ch CHR 0x5C \<or> e = ch CHR ''/'' then Some e
      else if e = ch CHR ''b'' then Some 0x08
      else if e = ch CHR ''f'' then Some 0x0C
      else if e = ch CHR ''n'' then Some 0x0A
      else if e = ch CHR ''r'' then Some 0x0D
      else if e = ch CHR ''t'' then Some 0x09
      else None)"

fun parse_chars :: "jsstring \<Rightarrow> (jsstring \<times> jsstring) option" where
  "parse_chars [] = None"
| "parse_chars (c # cs) =
     (if c = ch CHR ''\"'' then Some ([], cs)
      else if c = ch CHR 0x5C then
        (case cs of
           [] \<Rightarrow> None
         | e # cs' \<Rightarrow>
             if e = ch CHR ''u'' then
               (case cs' of
                  h1 # h2 # h3 # h4 # cs'' \<Rightarrow>
                    (case (hexVal h1, hexVal h2, hexVal h3, hexVal h4) of
                       (Some a, Some b, Some c, Some d) \<Rightarrow>
                         map_option (apfst (Cons (of_nat (((a * 16 + b) * 16 + c) * 16 + d))))
                           (parse_chars cs'')
                     | _ \<Rightarrow> None)
                | _ \<Rightarrow> None)
             else (case unescape e of
                None \<Rightarrow> None
              | Some d \<Rightarrow> map_option (apfst (Cons d)) (parse_chars cs')))
      else if c < 0x20 then None
      else map_option (apfst (Cons c)) (parse_chars cs))"

definition parse_fraction :: "jsstring \<Rightarrow> (jsstring \<times> jsstring) option" where
  "parse_fraction cs =
     (case cs of
        [] \<Rightarrow> Some ([], [])
      | c # r \<Rightarrow>
          if c = ch CHR ''.'' then
            (if takeWhile isDigit r = [] then None
             else Some (takeWhile isDigit r, dropWhile isDigit r))
          else Some ([], cs))"

definition parse_exponent :: "jsstring \<Rightarrow> (int \<times> jsstring) option" where
  "parse_exponent cs =
     (case cs of
        [] \<Rightarrow> Some (0, [])
      | c # r \<Rightarrow>
          if c = ch CHR ''e'' \<or> c = ch CHR ''E'' then
            (let neg = (case r of [] \<Rightarrow> False | s # _ \<Rightarrow> s = ch CHR ''-'');
                 r' = (case r of [] \<Rightarrow> [] | s # t \<Rightarrow>
                         if s = ch CHR ''-'' \<or> s = ch CHR ''+'' then t else r)
             in if takeWhile isDigit r' = [] then None
                else Some ((if neg then - 1 else 1) * int (digitsVal (takeWhile isDigit r')),
                           dropWhile isDigit r'))
          else Some (0, cs))"

definition parse_number :: "jsstring \<Rightarrow> (rat \<times> jsstring) option" where
  "parse_number cs =
     (let neg = (case cs of [] \<Rightarrow> False | s # _ \<Rightarrow> s = ch CHR ''-'');
          cs1 = (if neg then tl cs else cs);
          ip = takeWhile isDigit cs1
      in if ip = [] \<or> (length ip > 1 \<and> hd ip = ch CHR ''0'') then None
         else (case parse_fraction (dropWhile isDigit cs1) of
            None \<Rightarrow> None
          | Some (fp, cs2) \<Rightarrow>
              (case parse_exponent cs2 of
                 None \<Rightarrow> None
               | Some (ex, cs3) \<Rightarrow>
                   Some ((if neg then - 1 else 1) *
                         (of_nat (digitsVal (ip @ fp)) / 10 ^ length fp) *
                         (if ex < 0 then 1 / 10 ^ nat (- ex) else 10 ^ nat ex), cs3))))"

fun parse_value :: "nat \<Rightarrow> jsstring \<Rightarrow> (json \<times> jsstring) option"
  and parse_elements :: "nat \<Rightarrow> json list \<Rightarrow> jsstring \<Rightarrow> (json \<times> jsstring) option"
  and parse_members :: "nat \<Rightarrow> (jsstring \<times> json) list \<Rightarrow> jsstring \<Rightarrow> (json \<times> jsstring) option"
where
  "parse_value 0 cs = None"
| "parse_value (Suc n) cs =
     (case skipSpace cs of
        [] \<Rightarrow> None
      | c # r \<Rightarrow>
          if c = ch CHR ''{'' then
            (case skipSpace r of
               [] \<Rightarrow> None
             | c' # r' \<Rightarrow> if c' = ch CHR ''}'' then Some (JObj [], r') else parse_members n [] r)
          else if c = ch CHR ''['' then
            (case skipSpace r of
               [] \<Rightarrow> None
             | c' # r' \<Rightarrow> if c' = ch CHR '']'' then Some (JArr [], r') else parse_elements n [] r)
          else if c = ch CHR ''\"'' then map_option (apfst JStr) (parse_chars r)
          else if take 4 (c # r) = lit ''null'' then Some (JNull, drop 3 r)
          else if take 4 (c # r) = lit ''true'' then Some (JBool True, drop 3 r)
          else if take 5 (c # r) = lit ''false'' then Some (JBool False, drop 4 r)
          else map_option (apfst JNum) (parse_number (c # r)))"
| "parse_elements 0 acc cs = None"
| "parse_elements (Suc n) acc cs =
     (case parse_value n cs of
        None \<Rightarrow> None
      | Some (v, r) \<Rightarrow>
          (case skipSpace r of
             [] \<Rightarrow> None
           | c # r' \<Rightarrow>
               if c = ch CHR '','' then parse_elements n (acc @ [v]) r'
               else if c = ch CHR '']'' then Some (JArr (acc @ [v]), r')
               else None))"
| "parse_members 0 acc cs = None"
| "parse_members (Suc n) acc cs =
     (case skipSpace cs of
        [] \<Rightarrow> None
      | q # r \<Rightarrow>
          if q = ch CHR ''\"'' then
            (case parse_chars r of
               None \<Rightarrow> None
             | Some (k, r1) \<Rightarrow>
                 (case skipSpace r1 of
                    [] \<Rightarrow> None
                  | c1 # r2 \<Rightarrow>
                      if c1 = ch CHR '':'' then
                        (case parse_value n r2 of
                           None \<Rightarrow> None
                         | Some (v, r3) \<Rightarrow>
                             (case skipSpace r3 of
                                [] \<Rightarrow> None
                              | c2 # r4 \<Rightarrow>
                                  if c2 = ch CHR '','' then parse_members n (AList.update k v acc) r4
                                  else if c2 = ch CHR ''}'' then Some (JObj (AList.update k v acc), r4)
                                  else None))
                      else None))
          else None)"

definition JSON_parse_text :: "jsstring \<Rightarrow> jsError + json" where
  "JSON_parse_text s =
     (case parse_value (Suc (length s)) s of
        None \<Rightarrow> Inl SyntaxError
      | Some (v, r) \<Rightarrow> if skipSpace r = [] then Inr v else Inl SyntaxError)"


text \<open>\<^verbatim>\<open>JSON.stringify\<close>. Lone surrogates and control characters are escaped.\<close>

definition hexDigit :: "nat \<Rightarrow> jschar" where
  "hexDigit n = ch (''0123456789abcdef'' ! n)"

definition escape_u :: "jschar \<Rightarrow> jsstring" where
  "escape_u c =
     [ch CHR 0x5C, ch CHR ''u'', hexDigit (unat c div 4096), hexDigit (unat c div 256 mod 16),
      hexDigit (unat c div 16 mod 16), hexDigit (unat c mod 16)]"

definition isHigh :: "jschar \<Rightarrow> bool" where
  "isHigh c \<longleftrightarrow> 0xD800 \<le> c \<and> c \<le> 0xDBFF"

definition isLow :: "jschar \<Rightarrow> bool" where
  "isLow c \<longleftrightarrow> 0xDC00 \<le> c \<and> c \<le> 0xDFFF"

definition quote_char :: "jschar \<Rightarrow> jsstring" where
  "quote_char c =
     (if c = ch CHR ''\"'' \<or> c = ch CHR 0x5C then [ch CHR 0x5C, c]
      else if c = 0x08 then [ch CHR 0x5C, ch CHR ''b'']
      else if c = 0x0C then [ch CHR 0x5C, ch CHR ''f'']
      else if c = 0x0A then [ch CHR 0x5C, ch CHR ''n'']
      else if c = 0x0D then [ch CHR 0x5C, ch CHR ''r'']
      else if c = 0x09 then [ch CHR 0x5C, ch CHR ''t'']
      else if c < 0x20 \<or> isHigh c \<or> isLow c then escape_u c
      else [c])"

fun quote_chars :: "jsstring \<Rightarrow> jsstring" where
  "quote_chars [] = []"
| "quote_chars [c] = quote_char c"
| "quote_chars (c # d # cs) =
     (if isHigh c \<and> isLow d then c # d # quote_chars cs
      else quote_char c @ quote_chars (d # cs))"

definition quote :: "jsstring \<Rightarrow> jsstring" where
  "quote s = ch CHR ''\"'' # quote_chars s @ [ch CHR ''\"'']"

function digits :: "nat \<Rightarrow> jsstring" where
  "digits n = (if n < 10 then [of_nat (48 + n)] else digits (n div 10) @ [of_nat (48 + n mod 10)])"
  by pat_completeness auto
termination
  by (relation "measure id") auto

declare digits.simps [simp del]

fun fraction :: "nat \<Rightarrow> nat \<Rightarrow> nat \<Rightarrow> jsstring" where
  "fraction 0 r d = []"
| "fraction (Suc fuel) r d =
     (if r = 0 then [] else of_nat (48 + r * 10 div d) # fraction fuel (r * 10 mod d) d)"

definition number_text :: "rat \<Rightarrow> jsstring" where
  "number_text x =
     (let (p, q) = quotient_of x;
          a = nat \<bar>p\<bar>; d = nat q;
          f = fraction 20 (a mod d) d
      in (if p < 0 then [ch CHR ''-''] else []) @ digits (a div d) @
         (if f = [] then [] else ch CHR ''.'' # f))"

fun commas :: "jsstring list \<Rightarrow> jsstring" where
  "commas [] = []"
| "commas [x] = x"
| "commas (x # y # zs) = x @ ch CHR '','' # commas (y # zs)"

fun stringify :: "json \<Rightarrow> jsstring" where
  "stringify JNull = lit ''null''"
| "stringify (JBool b) = (if b then lit ''true'' else lit ''false'')"
| "stringify (JNum x) = number_text x"
| "stringify (JStr s) = quote s"
| "stringify (JArr vs) = ch CHR ''['' # commas (map stringify vs) @ [ch CHR '']'']"
| "stringify (JObj ps) =
     ch CHR ''{'' # commas (map (\<lambda>p. quote (fst p) @ ch CHR '':'' # stringify (snd p)) ps) @
       [ch CHR ''}'']"


text \<open>
  \<^verbatim>\<open>Date\<close>. Days are counted from 1970-01-01 in the proleptic Gregorian calendar.
  \<open>Date_parse_iso\<close> reads the format \<^verbatim>\<open>toISOString\<close> writes for the years 0 to 9999;
  browsers read more formats than this one.
\<close>

definition civil_from_days :: "int \<Rightarrow> int \<times> int \<times> int" where
  "civil_from_days z0 =
     (let z = z0 + 719468;
          era = z div 146097;
          doe = z - era * 146097;
          yoe = (doe - doe div 1460 + doe div 36524 - doe div 146096) div 365;
          doy = doe - (365 * yoe + yoe div 4 - yoe div 100);
          mp = (5 * doy + 2) div 153;
          d = doy - (153 * mp + 2) div 5 + 1;
          m = (if mp < 10 then mp + 3 else mp - 9);
          y = yoe + era * 400 + (if m \<le> 2 then 1 else 0)
      in (y, m, d))"

definition days_from_civil :: "int \<Rightarrow> int \<Rightarrow> int \<Rightarrow> int" where
  "days_from_civil y0 m d =
     (let y = (if m \<le> 2 then y0 - 1 else y0);
          era = y div 400;
          yoe = y - era * 400;
          doy = (153 * (if m > 2 then m - 3 else m + 9) + 2) div 5 + d - 1;
          doe = yoe * 365 + yoe div 4 - yoe div 100 + doy
      in era * 146097 + doe - 719468)"

definition pad :: "nat \<Rightarrow> nat \<Rightarrow> jsstring" where
  "pad w n = replicate (w - length (digits n)) (ch CHR ''0'') @ digits n"

definition toISOString_text :: "int \<Rightarrow> jsstring" where
  "toISOString_text t =
     (let (y, m, d) = civil_from_days (t div 86400000);
          ms = t mod 86400000
      in (if 0 \<le> y \<and> y \<le> 9999 then pad 4 (nat y)
          else (if y < 0 then ch CHR ''-'' else ch CHR ''+'') # pad 6 (nat \<bar>y\<bar>)) @
         ch CHR ''-'' # pad 2 (nat m) @ ch CHR ''-'' # pad 2 (nat d) @
         ch CHR ''T'' # pad 2 (nat (ms div 3600000)) @
         ch CHR '':'' # pad 2 (nat (ms div 60000 mod 60)) @
         ch CHR '':'' # pad 2 (nat (ms div 1000 mod 60)) @
         ch CHR ''.'' # pad 3 (nat (ms mod 1000)) @ [ch CHR ''Z''])"

definition field :: "nat \<Rightarrow> nat \<Rightarrow> jsstring \<Rightarrow> int option" where
  "field i w s =
     (if list_all isDigit (take w (drop i s)) \<and> length (take w (drop i s)) = w
      then Some (int (digitsVal (take w (drop i s)))) else None)"

definition daysInMonth :: "int \<Rightarrow> int \<Rightarrow> int" where
  "daysInMonth y m =
     (if m = 2 then (if y mod 4 = 0 \<and> (y mod 100 \<noteq> 0 \<or> y mod 400 = 0) then 29 else 28)
      else if m = 4 \<or> m = 6 \<or> m = 9 \<or> m = 11 then 30 else 31)"

definition Date_parse_iso :: "jsstring \<Rightarrow> int option" where
  "Date_parse_iso s =
     (if length s = 24 \<and>
         map (\<lambda>i. s ! i) [4, 7, 10, 13, 16, 19, 23] = lit ''--T::.Z''
      then (case (field 0 4 s, field 5 2 s, field 8 2 s, field 11 2 s, field 14 2 s,
                  field 17 2 s, field 20 3 s) of
              (Some y, Some m, Some d, Some h, Some mi, Some sec, Some ms) \<Rightarrow>
                if 1 \<le> m \<and> m \<le> 12 \<and> 1 \<le> d \<and> d \<le> daysInMonth y m \<and>
                   h \<le> 23 \<and> mi \<le> 59 \<and> sec \<le> 59
                then Some (days_from_civil y m d * 86400000 +
                           ((h * 60 + mi) * 60 + sec) * 1000 + ms)
                else None
            | _ \<Rightarrow> None)
      else None)"

fun Date_getTime_of :: "json option \<Rightarrow> int option" where
  "Date_getTime_of None = None"
| "Date_getTime_of (Some JNull) = Some 0"
| "Date_getTime_of (Some (JBool b)) = Some (if b then 1 else 0)"
| "Date_getTime_of (Some (JNum x)) =
     (let n = (if x < 0 then - \<lfloor>- x\<rfloor> else \<lfloor>x\<rfloor>)
      in if \<bar>n\<bar> \<le> 8640000000000000 then Some n else None)"
| "Date_getTime_of (Some (JStr s)) = Date_parse_iso s"
| "Date_getTime_of (Some (JArr [JStr s])) = Date_parse_iso s"
| "Date_getTime_of (Some (JArr vs)) = None"
| "Date_getTime_of (Some (JObj ps)) = None"

definition browser :: platform where
  "browser = \<lparr> JSON_stringify = stringify, JSON_parse = JSON_parse_text,
     toISOString = toISOString_text, Date_getTime = Date_getTime_of \<rparr>"

subsection \<open>Example states\<close>

text \<open>A visitor who has typed a name, chosen four stars and emptied the email field.\<close>

definition filled :: wizard where
  "filled = initial\<lparr> formData := [(lit ''name'', lit ''Ada'')], rating := 4,
     errors := [(lit ''email'', Some (lit ''This field is required''))] \<rparr>"

text \<open>
  Three files: a small PNG, a PNG of six mebibytes and a PDF. \<open>withLogo\<close> is a state
  whose attachment is the small PNG.
\<close>

definition logo :: File where
  "logo = \<lparr> file_name = lit ''logo.png'', file_type = lit ''image/png'', file_size = 3,
     file_bytes = [0x89, 0x50, 0x4E] \<rparr>"

definition poster :: File where
  "poster = \<lparr> file_name = lit ''poster.png'', file_type = lit ''image/png'',
     file_size = 6 * 1024 * 1024, file_bytes = replicate (6 * 1024 * 1024) 0 \<rparr>"

definition brochure :: File where
  "brochure = \<lparr> file_name = lit ''brochure.pdf'', file_type = lit ''application/pdf'',
     file_size = 3, file_bytes = [0x25, 0x50, 0x44] \<rparr>"

definition withLogo :: wizard where
  "withLogo = upload (Some logo) (filled\<lparr> currentPage := testimonial_deepdive \<rparr>)"

text \<open>
  A draft as the component writes it, saved on 1 November 2026 at noon (UTC); \<open>noon\<close> is
  noon of the next day in milliseconds since the epoch.
\<close>

definition yesterday :: jsstring where
  "yesterday = lit ''{\"data\":{\"name\":\"Ada\"},\"timestamp\":\"2026-11-01T12:00:00.000Z\"}''"

definition noon :: int where
  "noon = 1793620800000"

definition typing :: wizard where
  "typing = initial\<lparr> currentPage := testimonial_deepdive,
     formData := [(lit ''name'', lit ''Ada'')] \<rparr>"

definition visitor :: client where
  "visitor = \<lparr> Date_now = 1793620800000, navigator_userAgent = lit ''Mozilla/5.0'',
     document_referrer = [] \<rparr>"

section \<open>Properties\<close>

subsection \<open>Validation\<close>

text \<open>The matcher decides membership in the language of the expression.\<close>

lemma nullable_lang: "nullable r \<longleftrightarrow> [] \<in> lang r"
  by (induction r) (auto simp: conc_def intro: star.star_nil)

lemma star_cons:
  "c # w \<in> star A \<longleftrightarrow> (\<exists>u v. w = u @ v \<and> c # u \<in> A \<and> v \<in> star A)"
proof
  assume "c # w \<in> star A"
  then show "\<exists>u v. w = u @ v \<and> c # u \<in> A \<and> v \<in> star A"
  proof (induction "c # w" rule: star.induct)
    case (star_app u v)
    show ?case
    proof (cases u)
      case Nil
      with star_app show ?thesis by simp
    next
      case (Cons d u')
      with star_app have "w = u' @ v" "c # u' \<in> A" by auto
      with star_app(2) show ?thesis by blast
    qed
  qed
next
  assume "\<exists>u v. w = u @ v \<and> c # u \<in> A \<and> v \<in> star A"
  then obtain u v where "w = u @ v" "c # u \<in> A" "v \<in> star A" by blast
  then have "(c # u) @ v \<in> star A" by (intro star.star_app)
  with \<open>w = u @ v\<close> show "c # w \<in> star A" by simp
qed

lemma conc_cons:
  "c # w \<in> conc A B \<longleftrightarrow>
     (\<exists>u v. w = u @ v \<and> c # u \<in> A \<and> v \<in> B) \<or> ([] \<in> A \<and> c # w \<in> B)"
  by (auto simp: conc_def Cons_eq_append_conv)

lemma lang_deriv: "w \<in> lang (deriv c r) \<longleftrightarrow> c # w \<in> lang r"
proof (induction r arbitrary: w)
  case (Seq r s)
  then show ?case
    by (auto simp: conc_cons nullable_lang) (auto simp: conc_def)
next
  case (Star r)
  then show ?case
    by (auto simp: star_cons conc_def)
qed auto

lemma matches_lang: "matches r w \<longleftrightarrow> w \<in> lang r"
  by (induction w arbitrary: r) (simp_all add: nullable_lang lang_deriv)

lemma star_singletons: "w \<in> star {[c] | c. P c} \<longleftrightarrow> (\<forall>c \<in> set w. P c)"
proof
  assume "w \<in> star {[c] | c. P c}"
  then show "\<forall>c \<in> set w. P c" by (induction rule: star.induct) auto
next
  assume "\<forall>c \<in> set w. P c"
  then show "w \<in> star {[c] | c. P c}"
  proof (induction w)
    case Nil
    show ?case by (rule star.star_nil)
  next
    case (Cons a w)
    then have "[a] @ w \<in> star {[c] | c. P c}" by (intro star.star_app) auto
    then show ?case by simp
  qed
qed

lemma conc_single: "a # u \<in> conc {[c] | c. P c} B \<longleftrightarrow> P a \<and> u \<in> B"
proof
  assume "a # u \<in> conc {[c] | c. P c} B"
  then show "P a \<and> u \<in> B" by (auto simp: conc_def)
next
  assume "P a \<and> u \<in> B"
  then have "[a] @ u \<in> conc {[c] | c. P c} B" unfolding conc_def by blast
  then show "a # u \<in> conc {[c] | c. P c} B" by simp
qed

lemma lang_Plus_notSpaceAt:
  "w \<in> lang (Plus notSpaceAt) \<longleftrightarrow> w \<noteq> [] \<and> (\<forall>c \<in> set w. \<not> isSpace c \<and> c \<noteq> ch CHR ''@'')"
proof -
  have *: "lang notSpaceAt = {[c] | c. \<not> isSpace c \<and> c \<noteq> ch CHR ''@''}"
    by (auto simp: notSpaceAt_def)
  show ?thesis
  proof (cases w)
    case Nil
    then show ?thesis unfolding Plus_def lang.simps * by (simp add: conc_def)
  next
    case (Cons a u)
    then show ?thesis unfolding Plus_def lang.simps *
      by (simp add: conc_single star_singletons)
  qed
qed

lemma lang_emailRegex:
  "w \<in> lang emailRegex \<longleftrightarrow>
     (\<exists>l x y. w = l @ ch CHR ''@'' # x @ ch CHR ''.'' # y \<and> l \<noteq> [] \<and> x \<noteq> [] \<and> y \<noteq> [] \<and>
        (\<forall>c \<in> set (l @ x @ y). \<not> isSpace c \<and> c \<noteq> ch CHR ''@''))"
proof -
  have "w \<in> lang emailRegex \<longleftrightarrow>
     (\<exists>l x y. w = l @ ch CHR ''@'' # x @ ch CHR ''.'' # y \<and>
        l \<in> lang (Plus notSpaceAt) \<and> x \<in> lang (Plus notSpaceAt) \<and> y \<in> lang (Plus notSpaceAt))"
    unfolding emailRegex_def lang.simps conc_def by (simp, blast)
  also have "\<dots> \<longleftrightarrow>
     (\<exists>l x y. w = l @ ch CHR ''@'' # x @ ch CHR ''.'' # y \<and> l \<noteq> [] \<and> x \<noteq> [] \<and> y \<noteq> [] \<and>
        (\<forall>c \<in> set (l @ x @ y). \<not> isSpace c \<and> c \<noteq> ch CHR ''@''))"
    unfolding lang_Plus_notSpaceAt by (intro ex_cong1) auto
  finally show ?thesis .
qed

text \<open>
  C3, as the code has it. \<^verbatim>\<open>validateField\<close> returns the required-field message exactly
  when the flag is set and the value is the empty string. Otherwise, for the field
  \<^verbatim>\<open>email\<close> and a non-empty value, it returns the invalid-email message exactly when the
  value is not of the form \<open>l@x.y\<close> with \<open>l\<close>, \<open>x\<close> and \<open>y\<close> non-empty and free of white
  space and of \<^verbatim>\<open>@\<close>: the value has one \<^verbatim>\<open>@\<close>, and the domain has a dot with a character
  before it and a character after it. In every other case there is no message. The
  function reads nothing but its arguments.
\<close>

theorem validateField_verdict:
  "validateField fieldId val required =
     (if required \<and> val = [] then Some (lit ''This field is required'')
      else if fieldId = lit ''email'' \<and> val \<noteq> [] \<and>
              \<not> (\<exists>l x y. val = l @ ch CHR ''@'' # x @ ch CHR ''.'' # y \<and>
                     l \<noteq> [] \<and> x \<noteq> [] \<and> y \<noteq> [] \<and>
                     (\<forall>c \<in> set (l @ x @ y). \<not> isSpace c \<and> c \<noteq> ch CHR ''@''))
        then Some (lit ''Please enter a valid email'')
      else None) \<and>
   (validateField fieldId val required = Some (lit ''This field is required'') \<longleftrightarrow>
      required \<and> val = []) \<and>
   (validateField fieldId val required = Some (lit ''Please enter a valid email'') \<longleftrightarrow>
      fieldId = lit ''email'' \<and> val \<noteq> [] \<and>
      \<not> (\<exists>l x y. val = l @ ch CHR ''@'' # x @ ch CHR ''.'' # y \<and>
             l \<noteq> [] \<and> x \<noteq> [] \<and> y \<noteq> [] \<and>
             (\<forall>c \<in> set (l @ x @ y). \<not> isSpace c \<and> c \<noteq> ch CHR ''@''))) \<and>
   validateField fieldId [] False = None"
proof -
  have ne: "lit ''This field is required'' \<noteq> lit ''Please enter a valid email''"
    by (simp add: lit_def ch_def)
  have eq: "validateField fieldId val required =
     (if required \<and> val = [] then Some (lit ''This field is required'')
      else if fieldId = lit ''email'' \<and> val \<noteq> [] \<and>
              \<not> (\<exists>l x y. val = l @ ch CHR ''@'' # x @ ch CHR ''.'' # y \<and>
                     l \<noteq> [] \<and> x \<noteq> [] \<and> y \<noteq> [] \<and>
                     (\<forall>c \<in> set (l @ x @ y). \<not> isSpace c \<and> c \<noteq> ch CHR ''@''))
        then Some (lit ''Please enter a valid email'')
      else None)"
    unfolding validateField_def regex_test_def matches_lang lang_emailRegex ..
  have none: "validateField fieldId [] False = None"
    by (simp add: validateField_def)
  have req: "validateField fieldId val required = Some (lit ''This field is required'') \<longleftrightarrow>
      required \<and> val = []"
    unfolding eq using ne by auto
  have inv: "validateField fieldId val required = Some (lit ''Please enter a valid email'') \<longleftrightarrow>
      fieldId = lit ''email'' \<and> val \<noteq> [] \<and>
      \<not> (\<exists>l x y. val = l @ ch CHR ''@'' # x @ ch CHR ''.'' # y \<and>
             l \<noteq> [] \<and> x \<noteq> [] \<and> y \<noteq> [] \<and>
             (\<forall>c \<in> set (l @ x @ y). \<not> isSpace c \<and> c \<noteq> ch CHR ''@''))"
    unfolding eq using ne by auto
  from eq req inv none show ?thesis by (intro conjI)
qed

lemmas regex_defs = validateField_def regex_test_def emailRegex_def Plus_def notSpaceAt_def
  isSpace_def lit_def ch_def

theorem validateField_verdict_witness:
  "validateField (lit ''email'') (lit ''ada@example.org'') False = None \<and>
   (\<exists>l x y. lit ''ada@example.org'' = l @ ch CHR ''@'' # x @ ch CHR ''.'' # y \<and>
      l \<noteq> [] \<and> x \<noteq> [] \<and> y \<noteq> [] \<and>
      (\<forall>c \<in> set (l @ x @ y). \<not> isSpace c \<and> c \<noteq> ch CHR ''@''))"
proof -
  have e: "validateField (lit ''email'') (lit ''ada@example.org'') False = None"
    by (simp add: regex_defs)
  have n: "lit ''ada@example.org'' \<noteq> []"
    by (simp add: lit_def)
  show ?thesis
    using validateField_verdict [of "lit ''email''" "lit ''ada@example.org''" False] e n
    by (simp split: if_splits)
qed

text \<open>
  The value \<^verbatim>\<open>a@.b\<close> has a non-empty local part, a non-empty domain with a dot in it and
  no white space, as the specification asks; the pattern of the source rejects it.
\<close>

theorem validateField_email_counterexample:
  "emailShape_spec (lit ''a@.b'') \<and>
   validateField (lit ''email'') (lit ''a@.b'') False = Some (lit ''Please enter a valid email'')"
  by (simp add: emailShape_spec_def regex_defs)

subsection \<open>Editing\<close>

text \<open>
  C9. \<^verbatim>\<open>handleInputChange\<close> calls the validator with the required flag \<open>True\<close> for
  every field, whatever the form declares: the entry of \<^verbatim>\<open>errors\<close> for the edited field
  is the verdict with the flag set, and a field edited down to the empty string gets the
  required-field message. This holds for every field id, the optional \<^verbatim>\<open>email\<close>,
  \<^verbatim>\<open>role\<close>, \<^verbatim>\<open>q5_quantify\<close> and \<^verbatim>\<open>q6_additional\<close> among them.
\<close>

theorem handleInputChange_always_required:
  "errors (handleInputChange fieldId val s) =
     AList.update fieldId (validateField fieldId val True) (errors s) \<and>
   map_of (errors (handleInputChange fieldId [] s)) fieldId =
     Some (Some (lit ''This field is required''))"
  by (simp add: handleInputChange_def validateField_def update_conv')

subsection \<open>File upload\<close>

text \<open>Base64 can be read back.\<close>

lemma index_of_nth: "distinct xs \<Longrightarrow> n < length xs \<Longrightarrow> index_of (xs ! n) xs = Some n"
proof (induction xs arbitrary: n)
  case Nil
  then show ?case by simp
next
  case (Cons x xs)
  show ?case
  proof (cases n)
    case 0
    then show ?thesis by simp
  next
    case (Suc m)
    with Cons.prems have "xs ! m \<noteq> x" "m < length xs" "distinct xs" by auto
    with Cons.IH Suc show ?thesis by simp
  qed
qed

lemma distinct_b64chars: "distinct (lit b64chars)"
  by (simp add: b64chars_def lit_def ch_def)

lemma length_b64chars: "length (lit b64chars) = 64"
  by (simp add: b64chars_def lit_def)

lemma b64char_nth: "n < 64 \<Longrightarrow> b64char n = lit b64chars ! n"
  using length_b64chars by (simp add: b64char_def lit_def)

lemma b64val_b64char: "n < 64 \<Longrightarrow> b64val (b64char n) = Some n"
  unfolding b64val_def
  by (simp add: b64char_nth index_of_nth distinct_b64chars length_b64chars)

lemma b64char_not_pad: "n < 64 \<Longrightarrow> b64char n \<noteq> ch CHR ''=''"
proof -
  assume n: "n < 64"
  then have "b64char n \<in> set (lit b64chars)"
    by (simp add: b64char_nth length_b64chars)
  moreover have "ch CHR ''='' \<notin> set (lit b64chars)"
    by (simp add: b64chars_def lit_def ch_def)
  ultimately show ?thesis by metis
qed

lemma byte_bound: "unat (a :: 8 word) < 256"
  using unsigned_less [of a] by simp

lemma sextets:
  fixes n :: nat
  shows "n div 262144 * 64 + n div 4096 mod 64 = n div 4096"
    and "n div 4096 * 64 + n div 64 mod 64 = n div 64"
    and "n div 64 * 64 + n mod 64 = n"
proof -
  have a: "n div 262144 = n div 4096 div 64" by (simp add: div_mult2_eq)
  have b: "n div 4096 = n div 64 div 64" by (simp add: div_mult2_eq)
  have c: "m div 64 * 64 + m mod 64 = m" for m :: nat by simp
  show "n div 262144 * 64 + n div 4096 mod 64 = n div 4096"
    unfolding a by (rule c)
  show "n div 4096 * 64 + n div 64 mod 64 = n div 64"
    by (subst b) (rule c)
  show "n div 64 * 64 + n mod 64 = n"
    by (rule c)
qed

lemma div_mod_digit:
  fixes c k m :: nat
  assumes "c < k"
  shows "(m * k + c) div k = m" and "(m * k + c) mod k = c"
  using assms by simp_all

lemma octets:
  fixes a b c :: "8 word"
  defines "n \<equiv> unat a * 65536 + unat b * 256 + unat c"
  shows "n div 262144 < 64"
    and "of_nat (n div 65536) = a" and "of_nat (n div 256 mod 256) = b"
    and "of_nat (n mod 256) = c"
proof -
  have bd: "unat a < 256" "unat b < 256" "unat c < 256" by (rule byte_bound)+
  then show "n div 262144 < 64" by (simp add: n_def)
  from bd have "n div 65536 = unat a" by (simp add: n_def)
  then show "of_nat (n div 65536) = a" by simp
  have n: "n = (unat a * 256 + unat b) * 256 + unat c" by (simp add: n_def)
  have "n div 256 = unat a * 256 + unat b"
    unfolding n by (rule div_mod_digit(1)) (rule byte_bound)
  moreover have "(unat a * 256 + unat b) mod 256 = unat b"
    by (rule div_mod_digit(2)) (rule byte_bound)
  ultimately have "n div 256 mod 256 = unat b" by simp
  then show "of_nat (n div 256 mod 256) = b" by simp
  have "n mod 256 = unat c"
    unfolding n by (rule div_mod_digit(2)) (rule byte_bound)
  then show "of_nat (n mod 256) = c" by simp
qed

lemma unbase64_quad:
  assumes "p < 64" "q < 64" "r < 64" "t < 64"
  shows "unbase64 (b64char p # b64char q # b64char r # b64char t # rest) =
         map_option (\<lambda>bs. of_nat ((((p * 64 + q) * 64 + r) * 64 + t) div 65536) #
                          of_nat ((((p * 64 + q) * 64 + r) * 64 + t) div 256 mod 256) #
                          of_nat ((((p * 64 + q) * 64 + r) * 64 + t) mod 256) # bs)
           (unbase64 rest)"
  using assms by (simp add: b64val_b64char b64char_not_pad Let_def)

lemma unbase64_triple:
  assumes "p < 64" "q < 64" "r < 64"
  shows "unbase64 [b64char p, b64char q, b64char r, ch CHR ''=''] =
         Some [of_nat (((p * 64 + q) * 64 + r) div 1024),
               of_nat (((p * 64 + q) * 64 + r) div 4 mod 256)]"
  using assms by (simp add: b64val_b64char b64char_not_pad Let_def)

lemma unbase64_pair:
  assumes "p < 64" "q < 64"
  shows "unbase64 [b64char p, b64char q, ch CHR ''='', ch CHR ''=''] =
         Some [of_nat ((p * 64 + q) div 16)]"
  using assms by (simp add: b64val_b64char b64char_not_pad Let_def)

lemma unbase64_group3:
  assumes "n div 262144 < 64"
  shows "unbase64 (b64char (n div 262144) # b64char (n div 4096 mod 64) #
           b64char (n div 64 mod 64) # b64char (n mod 64) # rest) =
         map_option (\<lambda>bs. of_nat (n div 65536) # of_nat (n div 256 mod 256) #
                          of_nat (n mod 256) # bs) (unbase64 rest)"
  using unbase64_quad [OF assms, of "n div 4096 mod 64" "n div 64 mod 64" "n mod 64" rest]
  by (simp only: sextets mod_less_divisor zero_less_numeral simp_thms)

lemma unbase64_group2:
  assumes "n div 262144 < 64"
  shows "unbase64 [b64char (n div 262144), b64char (n div 4096 mod 64),
           b64char (n div 64 mod 64), ch CHR ''=''] =
         Some [of_nat (n div 65536), of_nat (n div 256 mod 256)]"
proof -
  have d: "n div 64 div 1024 = n div 65536" "n div 64 div 4 = n div 256"
    by (simp_all add: div_mult2_eq)
  show ?thesis
    using unbase64_triple [OF assms, of "n div 4096 mod 64" "n div 64 mod 64"]
    by (simp only: sextets d mod_less_divisor zero_less_numeral simp_thms)
qed

lemma unbase64_group1:
  assumes "n div 262144 < 64"
  shows "unbase64 [b64char (n div 262144), b64char (n div 4096 mod 64),
           ch CHR ''='', ch CHR ''=''] =
         Some [of_nat (n div 65536)]"
proof -
  have d: "n div 4096 div 16 = n div 65536"
    by (simp add: div_mult2_eq)
  show ?thesis
    using unbase64_pair [OF assms, of "n div 4096 mod 64"]
    by (simp only: sextets d mod_less_divisor zero_less_numeral simp_thms)
qed

lemma unbase64_base64: "unbase64 (base64 bs) = Some bs"
proof (induction bs rule: base64.induct)
  case (1 a b c rest)
  have "base64 (a # b # c # rest) =
      (let n = unat a * 65536 + unat b * 256 + unat c
       in b64char (n div 262144) # b64char (n div 4096 mod 64) #
          b64char (n div 64 mod 64) # b64char (n mod 64) # base64 rest)"
    by simp
  then show ?case
    unfolding Let_def using 1
    by (simp only: unbase64_group3 [OF octets(1)] octets option.map)
next
  case (2 a b)
  have "unbase64 (base64 [a, b]) =
      Some [of_nat ((unat a * 65536 + unat b * 256 + unat (0 :: 8 word)) div 65536),
            of_nat ((unat a * 65536 + unat b * 256 + unat (0 :: 8 word)) div 256 mod 256)]"
    using unbase64_group2 [OF octets(1), of a b 0] by (simp add: Let_def)
  then show ?case by (simp only: octets)
next
  case (3 a)
  have "unbase64 (base64 [a]) =
      Some [of_nat ((unat a * 65536 + unat (0 :: 8 word) * 256 + unat (0 :: 8 word)) div 65536)]"
    using unbase64_group1 [OF octets(1), of a 0 0] by (simp add: Let_def)
  then show ?case by (simp only: octets)
next
  case 4
  show ?case by simp
qed


text \<open>The data URL can be read back.\<close>

lemma lit_data: "lit ''data:'' = [ch CHR ''d'', ch CHR ''a'', ch CHR ''t'', ch CHR ''a'', ch CHR '':'']"
  and lit_base64:
    "lit '';base64,'' = [ch CHR '';'', ch CHR ''b'', ch CHR ''a'', ch CHR ''s'', ch CHR ''e'',
       ch CHR ''6'', ch CHR ''4'', ch CHR '','']"
  by (simp_all add: lit_def)

lemma dataURL_decode_readAsDataURL:
  assumes "ch CHR '';'' \<notin> set (file_type f)"
  shows "dataURL_decode (readAsDataURL f) = Some (file_type f, file_bytes f)"
proof -
  let ?tail = "lit '';base64,'' @ base64 (file_bytes f)"
  have t: "takeWhile (\<lambda>c. c \<noteq> ch CHR '';'') (file_type f @ ?tail) = file_type f"
    using assms by (subst takeWhile_append2) (auto simp: lit_base64)
  have d: "dropWhile (\<lambda>c. c \<noteq> ch CHR '';'') (file_type f @ ?tail) = ?tail"
    using assms by (subst dropWhile_append2) (auto simp: lit_base64)
  have "take 5 (readAsDataURL f) = lit ''data:''"
    and "drop 5 (readAsDataURL f) = file_type f @ ?tail"
    by (simp_all add: readAsDataURL_def lit_data)
  moreover have "take 8 ?tail = lit '';base64,''" and "drop 8 ?tail = base64 (file_bytes f)"
    by (simp_all add: lit_base64)
  ultimately show ?thesis
    unfolding dataURL_decode_def Let_def t d
    by (simp only: t d unbase64_base64 simp_thms if_True option.map)
qed

lemma validTypes_no_semicolon: "t \<in> set validTypes \<Longrightarrow> ch CHR '';'' \<notin> set t"
  by (auto simp: validTypes_def lit_def ch_def)

text \<open>
  C4. A file whose declared type is not \<^verbatim>\<open>image/jpeg\<close>, \<^verbatim>\<open>image/png\<close> or
  \<^verbatim>\<open>image/svg+xml\<close> is rejected with the message for the type, whatever its size. A file
  of an allowed type and of more than 5 * 1024 * 1024 bytes is rejected with the message for
  the size. Any other file becomes the attachment, with its name, type and size and
  with the data URL of its content, and the type and the content can be read back from
  that URL. A rejection writes \<^verbatim>\<open>errors.logo\<close> only: the attachment stays as it was.
\<close>

theorem upload_admission:
  "set validTypes = {lit ''image/jpeg'', lit ''image/png'', lit ''image/svg+xml''} \<and>
   (file_type f \<notin> set validTypes \<longrightarrow>
      handleFileUpload (Some f) s =
        (s\<lparr> errors := AList.update (lit ''logo'')
                (Some (lit ''Please upload JPG, PNG, or SVG only'')) (errors s) \<rparr>, None) \<and>
      uploadedFile (upload (Some f) s) = uploadedFile s) \<and>
   (file_type f \<in> set validTypes \<and> file_size f > 5 * 1024 * 1024 \<longrightarrow>
      handleFileUpload (Some f) s =
        (s\<lparr> errors := AList.update (lit ''logo'')
                (Some (lit ''File must be under 5MB'')) (errors s) \<rparr>, None) \<and>
      uploadedFile (upload (Some f) s) = uploadedFile s) \<and>
   (file_type f \<in> set validTypes \<and> file_size f \<le> 5 * 1024 * 1024 \<longrightarrow>
      handleFileUpload (Some f) s = (s, Some f) \<and>
      uploadedFile (upload (Some f) s) =
        Some \<lparr> name = file_name f, type' = file_type f, size' = file_size f,
               data = readAsDataURL f \<rparr> \<and>
      dataURL_decode (readAsDataURL f) = Some (file_type f, file_bytes f))"
proof -
  have "file_type f \<in> set validTypes \<Longrightarrow>
      dataURL_decode (readAsDataURL f) = Some (file_type f, file_bytes f)"
    by (rule dataURL_decode_readAsDataURL) (rule validTypes_no_semicolon)
  then show ?thesis
    by (auto simp: handleFileUpload_def upload_def onloadend_def maxSize_def validTypes_def)
qed

lemmas file_defs = logo_def poster_def brochure_def withLogo_def filled_def initial_def
  upload_def handleFileUpload_def onloadend_def validTypes_def maxSize_def lit_def ch_def

theorem upload_admission_witness:
  "file_type brochure \<notin> set validTypes \<and>
   uploadedFile (upload (Some brochure) withLogo) = uploadedFile withLogo \<and>
   file_type poster \<in> set validTypes \<and> file_size poster > 5 * 1024 * 1024 \<and>
   uploadedFile (upload (Some poster) withLogo) = uploadedFile withLogo \<and>
   map_of (errors (upload (Some poster) withLogo)) (lit ''logo'') =
     Some (Some (lit ''File must be under 5MB'')) \<and>
   file_type logo \<in> set validTypes \<and> file_size logo \<le> 5 * 1024 * 1024 \<and>
   readAsDataURL logo = lit ''data:image/png;base64,iVBO'' \<and>
   dataURL_decode (lit ''data:image/png;base64,iVBO'') = Some (lit ''image/png'', [0x89, 0x50, 0x4E])"
proof -
  have u: "readAsDataURL logo = lit ''data:image/png;base64,iVBO''"
    by (simp add: readAsDataURL_def logo_def b64char_def b64chars_def lit_def ch_def)
  have e: "map_of (errors (upload (Some poster) withLogo)) (lit ''logo'') =
     Some (Some (lit ''File must be under 5MB''))"
    by (simp add: file_defs update_conv')
  show ?thesis
    using upload_admission [of brochure withLogo] upload_admission [of poster withLogo]
      upload_admission [of logo withLogo] u e
    by (simp add: logo_def poster_def brochure_def validTypes_def lit_def ch_def)
qed

subsection \<open>The draft\<close>

lemma strings_of_formJson: "strings_of (map (\<lambda>(k, v). (k, JStr v)) fd) = Some fd"
  by (induction fd) auto

lemma asFormData_formJson: "asFormData (Some (formJson fd)) = Some fd"
  by (simp add: formJson_def strings_of_formJson)

lemma destructure_draftJson:
  "destructure (draftJson fd ts) = Inr (Some (formJson fd), Some (JStr ts))"
  by (simp add: draftJson_def lit_def ch_def)

text \<open>
  C5. On a platform where \<^verbatim>\<open>JSON.parse\<close> reads back the draft that \<^verbatim>\<open>JSON.stringify\<close>
  wrote and \<^verbatim>\<open>Date\<close> reads back the time stamp that \<^verbatim>\<open>toISOString\<close> wrote, saving the
  record \<open>R\<close> at the time \<open>t0\<close> and loading at a time \<open>t1\<close> less than 24 hours later
  sets the record to \<open>R\<close>. A stored draft whose time stamp is 24 hours old or older is
  ignored: the load makes no call to \<^verbatim>\<open>setFormData\<close>, and the state and local storage,
  the stored draft included, stay as they are.
\<close>

theorem draft_round_trip:
  "(JSON_parse P (JSON_stringify P (draftJson R (toISOString P t0))) =
      Inr (draftJson R (toISOString P t0)) \<and>
    JSON_stringify P (draftJson R (toISOString P t0)) \<noteq> [] \<and>
    Date_getTime P (Some (JStr (toISOString P t0))) = Some t0 \<and>
    t1 - t0 < 24 * 60 * 60 * 1000 \<longrightarrow>
      mount P t1 (autoSave_timeout P t0 R (ls, s)) =
        Returns (ls(draftKey \<mapsto> JSON_stringify P (draftJson R (toISOString P t0))),
                 s\<lparr> draftSaved := True, formData := R \<rparr>)) \<and>
   (ls draftKey = Some draft \<and> draft \<noteq> [] \<and> JSON_parse P draft = Inr (JObj props) \<and>
    Date_getTime P (map_of props (lit ''timestamp'')) = Some t \<and>
    24 * 60 * 60 * 1000 \<le> now - t \<longrightarrow>
      loadDraft P ls now = NoCall \<and> mount P now (ls, s) = Returns (ls, s))"
  by (simp add: mount_def loadDraft_def autoSave_timeout_def destructure_draftJson
      asFormData_formJson)

text \<open>
  C1, as the code has it. With no stored draft, or an empty one, the load leaves the
  state and local storage as they are. So it does with a stored text that parses to an
  object whose time stamp is missing, unreadable or at least 24 hours old, and with one
  that parses to a value that is neither an object nor \<^verbatim>\<open>null\<close>. A stored text that
  \<^verbatim>\<open>JSON.parse\<close> rejects makes the effect throw what \<^verbatim>\<open>JSON.parse\<close> throws, and the
  stored text \<^verbatim>\<open>null\<close> makes it throw a \<^verbatim>\<open>TypeError\<close>: nothing catches either.
\<close>

theorem mount_failures:
  "(ls draftKey = None \<or> ls draftKey = Some [] \<longrightarrow> mount P now (ls, s) = Returns (ls, s)) \<and>
   (ls draftKey = Some draft \<and> draft \<noteq> [] \<longrightarrow>
      (JSON_parse P draft = Inl e \<longrightarrow> mount P now (ls, s) = Throws e) \<and>
      (JSON_parse P draft = Inr JNull \<longrightarrow> mount P now (ls, s) = Throws TypeError) \<and>
      (JSON_parse P draft = Inr (JObj props) \<and>
       (Date_getTime P (map_of props (lit ''timestamp'')) = None \<or>
        (\<exists>t. Date_getTime P (map_of props (lit ''timestamp'')) = Some t \<and>
             24 * 60 * 60 * 1000 \<le> now - t)) \<longrightarrow>
         mount P now (ls, s) = Returns (ls, s)) \<and>
      (JSON_parse P draft = Inr v \<and> v \<noteq> JNull \<and> (\<forall>ps. v \<noteq> JObj ps) \<and>
       Date_getTime P None = None \<longrightarrow>
         mount P now (ls, s) = Returns (ls, s)))"
  by (cases v) (auto simp: mount_def loadDraft_def)


text \<open>The example draft on the browser of this theory.\<close>

lemma noon_text: "toISOString browser noon = lit ''2026-11-02T12:00:00.000Z''"
  by code_simp

lemma noon_time: "Date_getTime browser (Some (JStr (lit ''2026-11-02T12:00:00.000Z''))) = Some noon"
  by code_simp

lemma noon_draft:
  "JSON_stringify browser (draftJson [(lit ''name'', lit ''Ada'')] (lit ''2026-11-02T12:00:00.000Z'')) =
     lit ''{\"data\":{\"name\":\"Ada\"},\"timestamp\":\"2026-11-02T12:00:00.000Z\"}''"
  by code_simp

lemma noon_parse:
  "JSON_parse browser (lit ''{\"data\":{\"name\":\"Ada\"},\"timestamp\":\"2026-11-02T12:00:00.000Z\"}'') =
     Inr (draftJson [(lit ''name'', lit ''Ada'')] (lit ''2026-11-02T12:00:00.000Z''))"
  by code_simp

lemma yesterday_parse:
  "JSON_parse browser yesterday =
     Inr (JObj [(lit ''data'', JObj [(lit ''name'', JStr (lit ''Ada''))]),
                (lit ''timestamp'', JStr (lit ''2026-11-01T12:00:00.000Z''))])"
  by code_simp

lemma yesterday_time:
  "Date_getTime browser (Some (JStr (lit ''2026-11-01T12:00:00.000Z''))) = Some (noon - 86400000)"
  by code_simp

lemma broken_parse: "JSON_parse browser (lit ''{'') = Inl SyntaxError"
  by code_simp

lemma null_parse: "JSON_parse browser (lit ''null'') = Inr JNull"
  by code_simp

lemma empty_parse: "JSON_parse browser (lit ''{}'') = Inr (JObj [])"
  by code_simp


theorem draft_round_trip_witness:
  "JSON_parse browser
     (JSON_stringify browser (draftJson [(lit ''name'', lit ''Ada'')] (toISOString browser noon))) =
     Inr (draftJson [(lit ''name'', lit ''Ada'')] (toISOString browser noon)) \<and>
   JSON_stringify browser (draftJson [(lit ''name'', lit ''Ada'')] (toISOString browser noon)) \<noteq> [] \<and>
   Date_getTime browser (Some (JStr (toISOString browser noon))) = Some noon \<and>
   (noon + 5000) - noon < 24 * 60 * 60 * 1000 \<and>
   mount browser (noon + 5000)
       (autoSave_timeout browser noon [(lit ''name'', lit ''Ada'')] (Map.empty, typing)) =
     Returns (Map.empty(draftKey \<mapsto>
                lit ''{\"data\":{\"name\":\"Ada\"},\"timestamp\":\"2026-11-02T12:00:00.000Z\"}''),
              typing\<lparr> draftSaved := True \<rparr>) \<and>
   JSON_parse browser yesterday =
     Inr (JObj [(lit ''data'', JObj [(lit ''name'', JStr (lit ''Ada''))]),
                (lit ''timestamp'', JStr (lit ''2026-11-01T12:00:00.000Z''))]) \<and>
   24 * 60 * 60 * 1000 \<le> noon - (noon - 86400000) \<and>
   mount browser noon (Map.empty(draftKey \<mapsto> yesterday), initial) =
     Returns (Map.empty(draftKey \<mapsto> yesterday), initial)"
proof -
  have ne: "lit ''{\"data\":{\"name\":\"Ada\"},\"timestamp\":\"2026-11-02T12:00:00.000Z\"}'' \<noteq> []"
    "yesterday \<noteq> []"
    by (simp_all add: yesterday_def lit_def)
  have ts: "lit ''timestamp'' \<noteq> lit ''data''"
    by (simp add: lit_def ch_def)
  show ?thesis
    using draft_round_trip [where P = browser and R = "[(lit ''name'', lit ''Ada'')]"
        and ?t0.0 = noon and ?t1.0 = "noon + 5000" and ls = Map.empty and s = typing]
      draft_round_trip [where P = browser and ls = "Map.empty(draftKey \<mapsto> yesterday)"
        and draft = yesterday and s = initial and now = noon and t = "noon - 86400000"
        and props = "[(lit ''data'', JObj [(lit ''name'', JStr (lit ''Ada''))]),
          (lit ''timestamp'', JStr (lit ''2026-11-01T12:00:00.000Z''))]"]
    by (simp add: noon_text noon_time noon_draft noon_parse yesterday_parse yesterday_time
        ne ts typing_def)
qed

theorem mount_failures_witness:
  "mount browser noon (Map.empty, initial) = Returns (Map.empty, initial) \<and>
   JSON_parse browser (lit ''{}'') = Inr (JObj []) \<and>
   Date_getTime browser (map_of [] (lit ''timestamp'')) = None \<and>
   mount browser noon (Map.empty(draftKey \<mapsto> lit ''{}''), initial) =
     Returns (Map.empty(draftKey \<mapsto> lit ''{}''), initial) \<and>
   JSON_parse browser (lit ''null'') = Inr JNull \<and>
   mount browser noon (Map.empty(draftKey \<mapsto> lit ''null''), initial) = Throws TypeError"
proof -
  have ne: "lit ''{}'' \<noteq> []" "lit ''null'' \<noteq> []"
    by (simp_all add: lit_def)
  have d: "Date_getTime browser None = None"
    by (simp add: browser_def)
  show ?thesis
    using mount_failures [where ls = Map.empty and P = browser and now = noon and s = initial]
      mount_failures [where ls = "Map.empty(draftKey \<mapsto> lit ''{}'')" and draft = "lit ''{}''"
        and P = browser and props = "[]" and now = noon and s = initial]
      mount_failures [where ls = "Map.empty(draftKey \<mapsto> lit ''null'')"
        and draft = "lit ''null''" and P = browser and now = noon and s = initial]
    by (simp add: empty_parse null_parse ne d)
qed

text \<open>
  With the text \<^verbatim>\<open>{\<close> stored under the draft key, the effect that loads the draft
  throws a \<^verbatim>\<open>SyntaxError\<close>.
\<close>

theorem mount_counterexample:
  "mount browser noon (Map.empty(draftKey \<mapsto> lit ''{''), initial) = Throws SyntaxError"
proof -
  have "lit ''{'' \<noteq> []"
    by (simp add: lit_def)
  then show ?thesis
    by (simp add: mount_def loadDraft_def broken_parse)
qed

subsection \<open>Navigation\<close>

text \<open>
  C8. Choosing a track and going back change the page and nothing else: on the landing
  page each track button sets the page to its track, on a track page Back sets it to the
  landing page, and short review, back, deep dive from the landing page ends on the deep
  dive with every other part of the state as it was. Of the buttons that change the page,
  only Return Home touches the record, the rating or the attachment.
\<close>

theorem navigation_changes_page_only:
  "(currentPage s = landing \<longrightarrow>
      click ShortReviewButton s = s\<lparr> currentPage := short_review \<rparr> \<and>
      click DeepDiveButton s = s\<lparr> currentPage := testimonial_deepdive \<rparr> \<and>
      click DeepDiveButton (click BackButton (click ShortReviewButton s)) =
        s\<lparr> currentPage := testimonial_deepdive \<rparr>) \<and>
   (currentPage s = short_review \<or> currentPage s = testimonial_deepdive \<longrightarrow>
      click BackButton s = s\<lparr> currentPage := landing \<rparr>) \<and>
   (b \<noteq> ReturnHomeButton \<longrightarrow>
      formData (click b s) = formData s \<and> rating (click b s) = rating s \<and>
      uploadedFile (click b s) = uploadedFile s \<and> errors (click b s) = errors s \<and>
      isSubmitting (click b s) = isSubmitting s \<and> submitError (click b s) = submitError s \<and>
      draftSaved (click b s) = draftSaved s)"
  by (cases b) (auto simp: click_def)

theorem navigation_changes_page_only_witness:
  "currentPage filled = landing \<and>
   click DeepDiveButton (click BackButton (click ShortReviewButton filled)) =
     filled\<lparr> currentPage := testimonial_deepdive \<rparr> \<and>
   currentPage (filled\<lparr> currentPage := short_review \<rparr>) = short_review \<and>
   click BackButton (filled\<lparr> currentPage := short_review \<rparr>) = filled \<and>
   BackButton \<noteq> ReturnHomeButton \<and>
   formData (click BackButton (filled\<lparr> currentPage := short_review \<rparr>)) =
     [(lit ''name'', lit ''Ada'')]"
  using navigation_changes_page_only [of filled BackButton]
    navigation_changes_page_only [of "filled\<lparr> currentPage := short_review \<rparr>" BackButton]
  by (simp add: filled_def initial_def)

text \<open>
  C10. Return Home on the success page sets the page to the landing page and empties the
  record, the rating and the attachment; \<^verbatim>\<open>errors\<close> and \<^verbatim>\<open>submitError\<close> are not
  touched, so the messages recorded before stay for the next round.
\<close>

theorem returnHome_keeps_errors:
  "currentPage s = success \<Longrightarrow>
     click ReturnHomeButton s =
       s\<lparr> currentPage := landing, formData := [], rating := 0, uploadedFile := None \<rparr> \<and>
     errors (click ReturnHomeButton s) = errors s \<and>
     submitError (click ReturnHomeButton s) = submitError s"
  by (simp add: click_def)

theorem returnHome_keeps_errors_witness:
  "currentPage (filled\<lparr> currentPage := success \<rparr>) = success \<and>
   formData (click ReturnHomeButton (filled\<lparr> currentPage := success \<rparr>)) = [] \<and>
   rating (click ReturnHomeButton (filled\<lparr> currentPage := success \<rparr>)) = 0 \<and>
   uploadedFile (click ReturnHomeButton (filled\<lparr> currentPage := success \<rparr>)) = None \<and>
   errors (click ReturnHomeButton (filled\<lparr> currentPage := success \<rparr>)) =
     [(lit ''email'', Some (lit ''This field is required''))]"
  using returnHome_keeps_errors [of "filled\<lparr> currentPage := success \<rparr>"]
  by (simp add: filled_def initial_def)

subsection \<open>The payload\<close>

lemma spread_simps:
  "spread [] obj = obj"
  "spread (p # src) obj = spread src (AList.update (fst p) (snd p) obj)"
  by (simp_all add: spread_def split_beta)

lemma keys_spread: "fst ` set (spread src obj) = fst ` set obj \<union> fst ` set src"
proof (induction src arbitrary: obj)
  case Nil
  show ?case by (simp add: spread_simps)
next
  case (Cons p src)
  have "fst ` set (spread (p # src) obj) = fst ` set (AList.update (fst p) (snd p) obj) \<union> fst ` set src"
    by (simp only: spread_simps Cons.IH)
  also have "\<dots> = fst ` set obj \<union> fst ` set (p # src)"
    by (simp only: dom_update) auto
  finally show ?case .
qed

lemma map_of_spread_other:
  "k \<notin> fst ` set src \<Longrightarrow> map_of (spread src obj) k = map_of obj k"
  by (induction src arbitrary: obj) (auto simp: spread_simps update_conv')

lemma map_of_spread_member:
  "distinct (map fst src) \<Longrightarrow> (k, v) \<in> set src \<Longrightarrow> map_of (spread src obj) k = Some v"
proof (induction src arbitrary: obj)
  case Nil
  then show ?case by simp
next
  case (Cons p src)
  obtain k' v' where p: "p = (k', v')" by (cases p)
  show ?case
  proof (cases "(k, v) \<in> set src")
    case True
    with Cons show ?thesis by (simp add: spread_simps)
  next
    case False
    with Cons.prems p have "k' = k" "v' = v" "k \<notin> fst ` set src" by auto
    then have "map_of (spread src (AList.update k v obj)) k = Some v"
      by (simp add: map_of_spread_other update_conv')
    with p \<open>k' = k\<close> \<open>v' = v\<close> show ?thesis by (simp add: spread_simps)
  qed
qed

lemma keys_strings: "fst ` (\<lambda>(k, v). (k, JStr v)) ` A = fst ` A"
  by force

lemma distinct_strings: "map fst (map (\<lambda>(k, v). (k, JStr v)) fd) = map fst fd"
  by (induction fd) auto

lemma ratingJson_null: "ratingJson r = JNull \<longleftrightarrow> r = 0"
  by (simp add: ratingJson_def)

lemmas key_defs = lit_def ch_def

text \<open>
  C2, as the code has it. The top-level keys of the payload are the keys of the record
  and \<^verbatim>\<open>reviewType\<close>, \<^verbatim>\<open>submittedAt\<close>, \<^verbatim>\<open>rating\<close>, \<^verbatim>\<open>file\<close>, \<^verbatim>\<open>userAgent\<close> and
  \<^verbatim>\<open>referrer\<close>. The rating is \<^verbatim>\<open>null\<close> when it is 0 and the number otherwise, the file
  is the attachment or \<^verbatim>\<open>null\<close>, user agent and referrer are passed through. The track
  label is under \<^verbatim>\<open>reviewType\<close> and the time stamp under \<^verbatim>\<open>submittedAt\<close> unless the record
  has a field of that name, which then takes its place; there is a key \<^verbatim>\<open>formType\<close> only
  if the record has one. Every field of the record, but one named like the last four keys,
  is there with its string. In the second copy of the component the top-level keys are
  \<^verbatim>\<open>formType\<close>, \<^verbatim>\<open>submittedAt\<close>, \<^verbatim>\<open>data\<close>, \<^verbatim>\<open>file\<close> and \<^verbatim>\<open>metadata\<close>:
  \<^verbatim>\<open>formType\<close> is the track label, \<^verbatim>\<open>submittedAt\<close> the time stamp, \<^verbatim>\<open>file\<close> the
  attachment or \<^verbatim>\<open>null\<close>; \<^verbatim>\<open>data\<close> is an object whose keys are the keys of the record
  and \<^verbatim>\<open>rating\<close>, with the rating as in the first copy and every field of the record
  not named \<^verbatim>\<open>rating\<close> with its string; \<^verbatim>\<open>metadata\<close> is the object of \<^verbatim>\<open>userAgent\<close>
  and \<^verbatim>\<open>referrer\<close>.
\<close>

theorem payload_shape:
  "fst ` set (payload formType submittedAt userAgent referrer s) =
     fst ` set (formData s) \<union>
     {lit ''reviewType'', lit ''submittedAt'', lit ''rating'', lit ''file'', lit ''userAgent'',
      lit ''referrer''} \<and>
   map_of (payload formType submittedAt userAgent referrer s) (lit ''rating'') =
     Some (if rating s = 0 then JNull else JNum (of_nat (rating s))) \<and>
   (map_of (payload formType submittedAt userAgent referrer s) (lit ''rating'') = Some JNull
      \<longleftrightarrow> rating s = 0) \<and>
   map_of (payload formType submittedAt userAgent referrer s) (lit ''file'') =
     Some (fileJson (uploadedFile s)) \<and>
   map_of (payload formType submittedAt userAgent referrer s) (lit ''userAgent'') =
     Some (JStr userAgent) \<and>
   map_of (payload formType submittedAt userAgent referrer s) (lit ''referrer'') =
     Some (JStr referrer) \<and>
   (lit ''reviewType'' \<notin> fst ` set (formData s) \<longrightarrow>
      map_of (payload formType submittedAt userAgent referrer s) (lit ''reviewType'') =
        Some (JStr formType)) \<and>
   (lit ''submittedAt'' \<notin> fst ` set (formData s) \<longrightarrow>
      map_of (payload formType submittedAt userAgent referrer s) (lit ''submittedAt'') =
        Some (JStr submittedAt)) \<and>
   (lit ''formType'' \<notin> fst ` set (formData s) \<longrightarrow>
      map_of (payload formType submittedAt userAgent referrer s) (lit ''formType'') = None) \<and>
   (distinct (map fst (formData s)) \<longrightarrow>
      (\<forall>k v. (k, v) \<in> set (formData s) \<longrightarrow>
         k \<notin> {lit ''rating'', lit ''file'', lit ''userAgent'', lit ''referrer''} \<longrightarrow>
         map_of (payload formType submittedAt userAgent referrer s) k = Some (JStr v))) \<and>
   map fst (payload_part_000 formType submittedAt userAgent referrer s) =
     [lit ''formType'', lit ''submittedAt'', lit ''data'', lit ''file'', lit ''metadata''] \<and>
   (\<exists>fields.
      payload_part_000 formType submittedAt userAgent referrer s =
        [(lit ''formType'', JStr formType),
         (lit ''submittedAt'', JStr submittedAt),
         (lit ''data'', JObj fields),
         (lit ''file'', fileJson (uploadedFile s)),
         (lit ''metadata'', JObj [(lit ''userAgent'', JStr userAgent),
                                  (lit ''referrer'', JStr referrer)])] \<and>
      fst ` set fields = fst ` set (formData s) \<union> {lit ''rating''} \<and>
      map_of fields (lit ''rating'') =
        Some (if rating s = 0 then JNull else JNum (of_nat (rating s))) \<and>
      (distinct (map fst (formData s)) \<longrightarrow>
         (\<forall>k v. (k, v) \<in> set (formData s) \<longrightarrow> k \<noteq> lit ''rating'' \<longrightarrow>
            map_of fields k = Some (JStr v))))"
proof -
  let ?fd = "map (\<lambda>(k, v). (k, JStr v)) (formData s)"
  let ?base = "[(lit ''reviewType'', JStr formType), (lit ''submittedAt'', JStr submittedAt)]"
  have keys: "fst ` set (spread ?fd ?base) =
      {lit ''reviewType'', lit ''submittedAt''} \<union> fst ` set (formData s)"
    by (simp add: keys_spread keys_strings)
  have a: "fst ` set (payload formType submittedAt userAgent referrer s) =
     fst ` set (formData s) \<union>
     {lit ''reviewType'', lit ''submittedAt'', lit ''rating'', lit ''file'', lit ''userAgent'',
      lit ''referrer''}"
    unfolding payload_def dom_update keys by blast
  have ne: "lit ''rating'' \<noteq> lit ''file''" "lit ''rating'' \<noteq> lit ''userAgent''"
    "lit ''rating'' \<noteq> lit ''referrer''" "lit ''file'' \<noteq> lit ''userAgent''"
    "lit ''file'' \<noteq> lit ''referrer''" "lit ''userAgent'' \<noteq> lit ''referrer''"
    "lit ''reviewType'' \<noteq> lit ''rating''" "lit ''reviewType'' \<noteq> lit ''file''"
    "lit ''reviewType'' \<noteq> lit ''userAgent''" "lit ''reviewType'' \<noteq> lit ''referrer''"
    "lit ''submittedAt'' \<noteq> lit ''rating''" "lit ''submittedAt'' \<noteq> lit ''file''"
    "lit ''submittedAt'' \<noteq> lit ''userAgent''" "lit ''submittedAt'' \<noteq> lit ''referrer''"
    "lit ''formType'' \<noteq> lit ''rating''" "lit ''formType'' \<noteq> lit ''file''"
    "lit ''formType'' \<noteq> lit ''userAgent''" "lit ''formType'' \<noteq> lit ''referrer''"
    "lit ''formType'' \<noteq> lit ''reviewType''" "lit ''formType'' \<noteq> lit ''submittedAt''"
    "lit ''reviewType'' \<noteq> lit ''submittedAt''"
    by (simp_all add: key_defs)
  have b: "map_of (payload formType submittedAt userAgent referrer s) (lit ''rating'') =
     Some (if rating s = 0 then JNull else JNum (of_nat (rating s)))"
    using ne by (simp add: payload_def update_conv' ratingJson_def)
  have b': "map_of (payload formType submittedAt userAgent referrer s) (lit ''rating'') = Some JNull
      \<longleftrightarrow> rating s = 0"
    unfolding b using ratingJson_null [of "rating s"] by (simp add: ratingJson_def)
  have c: "map_of (payload formType submittedAt userAgent referrer s) (lit ''file'') =
     Some (fileJson (uploadedFile s))"
    using ne by (simp add: payload_def update_conv')
  have d: "map_of (payload formType submittedAt userAgent referrer s) (lit ''userAgent'') =
     Some (JStr userAgent)"
    using ne by (simp add: payload_def update_conv')
  have e: "map_of (payload formType submittedAt userAgent referrer s) (lit ''referrer'') =
     Some (JStr referrer)"
    using ne by (simp add: payload_def update_conv')
  have f: "lit ''reviewType'' \<notin> fst ` set (formData s) \<longrightarrow>
      map_of (payload formType submittedAt userAgent referrer s) (lit ''reviewType'') =
        Some (JStr formType)"
    using ne by (simp add: payload_def update_conv' map_of_spread_other keys_strings)
  have g: "lit ''submittedAt'' \<notin> fst ` set (formData s) \<longrightarrow>
      map_of (payload formType submittedAt userAgent referrer s) (lit ''submittedAt'') =
        Some (JStr submittedAt)"
    using ne by (simp add: payload_def update_conv' map_of_spread_other keys_strings)
  have h: "lit ''formType'' \<notin> fst ` set (formData s) \<longrightarrow>
      map_of (payload formType submittedAt userAgent referrer s) (lit ''formType'') = None"
    using ne by (simp add: payload_def update_conv' map_of_spread_other keys_strings)
  have i: "distinct (map fst (formData s)) \<longrightarrow>
      (\<forall>k v. (k, v) \<in> set (formData s) \<longrightarrow>
         k \<notin> {lit ''rating'', lit ''file'', lit ''userAgent'', lit ''referrer''} \<longrightarrow>
         map_of (payload formType submittedAt userAgent referrer s) k = Some (JStr v))"
  proof (intro impI allI)
    fix k v
    assume dist: "distinct (map fst (formData s))" and kv: "(k, v) \<in> set (formData s)"
      and k: "k \<notin> {lit ''rating'', lit ''file'', lit ''userAgent'', lit ''referrer''}"
    from kv have mem: "(k, JStr v) \<in> set ?fd" by force
    from dist have "distinct (map fst ?fd)" by (simp only: distinct_strings)
    from this mem have "map_of (spread ?fd ?base) k = Some (JStr v)"
      by (rule map_of_spread_member)
    with k show "map_of (payload formType submittedAt userAgent referrer s) k = Some (JStr v)"
      by (simp add: payload_def update_conv')
  qed
  have j: "map fst (payload_part_000 formType submittedAt userAgent referrer s) =
     [lit ''formType'', lit ''submittedAt'', lit ''data'', lit ''file'', lit ''metadata'']"
    by (simp add: payload_part_000_def)
  let ?fields = "AList.update (lit ''rating'') (ratingJson (rating s)) (spread ?fd [])"
  have k1: "payload_part_000 formType submittedAt userAgent referrer s =
        [(lit ''formType'', JStr formType),
         (lit ''submittedAt'', JStr submittedAt),
         (lit ''data'', JObj ?fields),
         (lit ''file'', fileJson (uploadedFile s)),
         (lit ''metadata'', JObj [(lit ''userAgent'', JStr userAgent),
                                  (lit ''referrer'', JStr referrer)])]"
    by (simp add: payload_part_000_def)
  have k2: "fst ` set ?fields = fst ` set (formData s) \<union> {lit ''rating''}"
    unfolding dom_update keys_spread by (simp add: keys_strings)
  have k3: "map_of ?fields (lit ''rating'') =
        Some (if rating s = 0 then JNull else JNum (of_nat (rating s)))"
    by (simp add: update_conv' ratingJson_def)
  have k4: "distinct (map fst (formData s)) \<longrightarrow>
         (\<forall>k v. (k, v) \<in> set (formData s) \<longrightarrow> k \<noteq> lit ''rating'' \<longrightarrow>
            map_of ?fields k = Some (JStr v))"
  proof (intro impI allI)
    fix k v
    assume dist: "distinct (map fst (formData s))" and kv: "(k, v) \<in> set (formData s)"
      and k: "k \<noteq> lit ''rating''"
    from kv have mem: "(k, JStr v) \<in> set ?fd" by force
    from dist have "distinct (map fst ?fd)" by (simp only: distinct_strings)
    from this mem have "map_of (spread ?fd []) k = Some (JStr v)"
      by (rule map_of_spread_member)
    with k show "map_of ?fields k = Some (JStr v)"
      by (simp add: update_conv')
  qed
  from k1 k2 k3 k4 have k: "\<exists>fields.
      payload_part_000 formType submittedAt userAgent referrer s =
        [(lit ''formType'', JStr formType),
         (lit ''submittedAt'', JStr submittedAt),
         (lit ''data'', JObj fields),
         (lit ''file'', fileJson (uploadedFile s)),
         (lit ''metadata'', JObj [(lit ''userAgent'', JStr userAgent),
                                  (lit ''referrer'', JStr referrer)])] \<and>
      fst ` set fields = fst ` set (formData s) \<union> {lit ''rating''} \<and>
      map_of fields (lit ''rating'') =
        Some (if rating s = 0 then JNull else JNum (of_nat (rating s))) \<and>
      (distinct (map fst (formData s)) \<longrightarrow>
         (\<forall>k v. (k, v) \<in> set (formData s) \<longrightarrow> k \<noteq> lit ''rating'' \<longrightarrow>
            map_of fields k = Some (JStr v)))"
    by (intro exI [of _ ?fields] conjI)
  from a b b' c d e f g h i j k show ?thesis by (intro conjI)
qed

theorem payload_shape_witness:
  "lit ''reviewType'' \<notin> fst ` set (formData filled) \<and>
   lit ''submittedAt'' \<notin> fst ` set (formData filled) \<and>
   lit ''formType'' \<notin> fst ` set (formData filled) \<and>
   distinct (map fst (formData filled)) \<and>
   (lit ''name'', lit ''Ada'') \<in> set (formData filled) \<and>
   lit ''name'' \<notin> {lit ''rating'', lit ''file'', lit ''userAgent'', lit ''referrer''} \<and>
   map_of (payload (lit ''Short Review'') (lit ''2026-11-02T12:00:00.000Z'') (lit ''Mozilla/5.0'') []
     filled) (lit ''name'') = Some (JStr (lit ''Ada'')) \<and>
   map_of (payload (lit ''Short Review'') (lit ''2026-11-02T12:00:00.000Z'') (lit ''Mozilla/5.0'') []
     filled) (lit ''reviewType'') = Some (JStr (lit ''Short Review'')) \<and>
   map_of (payload (lit ''Short Review'') (lit ''2026-11-02T12:00:00.000Z'') (lit ''Mozilla/5.0'') []
     filled) (lit ''rating'') = Some (JNum 4) \<and>
   lit ''name'' \<noteq> lit ''rating'' \<and>
   payload_part_000 (lit ''Short Review'') (lit ''2026-11-02T12:00:00.000Z'') (lit ''Mozilla/5.0'') []
     filled =
     [(lit ''formType'', JStr (lit ''Short Review'')),
      (lit ''submittedAt'', JStr (lit ''2026-11-02T12:00:00.000Z'')),
      (lit ''data'', JObj [(lit ''name'', JStr (lit ''Ada'')), (lit ''rating'', JNum 4)]),
      (lit ''file'', JNull),
      (lit ''metadata'', JObj [(lit ''userAgent'', JStr (lit ''Mozilla/5.0'')),
                               (lit ''referrer'', JStr [])])]"
  using payload_shape [of "lit ''Short Review''" "lit ''2026-11-02T12:00:00.000Z''"
      "lit ''Mozilla/5.0''" "[]" filled]
  by (simp add: filled_def initial_def key_defs payload_part_000_def spread_def ratingJson_def
      fileJson_def)

text \<open>
  For a record with the one field \<^verbatim>\<open>name\<close>, the payload of the component has no key
  \<^verbatim>\<open>formType\<close>, and the payload of the second copy has neither \<^verbatim>\<open>userAgent\<close> nor the
  field \<^verbatim>\<open>name\<close> at the top level.
\<close>

theorem payload_counterexample:
  "map_of (payload (lit ''Short Review'') (lit ''2026-11-02T12:00:00.000Z'') (lit ''Mozilla/5.0'') []
     filled) (lit ''formType'') = None \<and>
   map_of (payload_part_000 (lit ''Short Review'') (lit ''2026-11-02T12:00:00.000Z'')
     (lit ''Mozilla/5.0'') [] filled) (lit ''userAgent'') = None \<and>
   map_of (payload_part_000 (lit ''Short Review'') (lit ''2026-11-02T12:00:00.000Z'')
     (lit ''Mozilla/5.0'') [] filled) (lit ''name'') = None"
  by (simp add: payload_def payload_part_000_def spread_def ratingJson_def fileJson_def
      filled_def initial_def key_defs)

subsection \<open>Submission\<close>

text \<open>
  C6. Before the request goes out \<^verbatim>\<open>handleSubmit\<close> sets \<^verbatim>\<open>isSubmitting\<close> and clears
  \<^verbatim>\<open>submitError\<close>. When the request fails, by a rejected promise or by a status outside
  200 to 299, \<^verbatim>\<open>submitError\<close> becomes the fixed message and the page, the record, the
  attachment and local storage stay as they were. In every case \<^verbatim>\<open>isSubmitting\<close> is
  false at the end.
\<close>

theorem submit_failure_keeps_state:
  "handleSubmit_begin s = s\<lparr> isSubmitting := True, submitError := None \<rparr> \<and>
   isSubmitting (handleSubmit_begin s) \<and> submitError (handleSubmit_begin s) = None \<and>
   (\<not> ok response \<longrightarrow>
      handleSubmit_settle formType response (ls, s') =
        (ls, s'\<lparr> submitError :=
                   Some (lit ''Unable to submit. Please check your connection and try again.''),
                 isSubmitting := False \<rparr>)) \<and>
   (\<not> ok (fetch (body P c formType s)) \<longrightarrow>
      handleSubmit P c fetch formType (ls, s) =
        (ls, s\<lparr> submitError :=
                  Some (lit ''Unable to submit. Please check your connection and try again.''),
                isSubmitting := False \<rparr>)) \<and>
   \<not> isSubmitting (snd (handleSubmit_settle formType response (ls, s'))) \<and>
   \<not> isSubmitting (snd (handleSubmit P c fetch formType (ls, s)))"
  by (simp add: handleSubmit_begin_def handleSubmit_settle_def handleSubmit_def)

theorem submit_failure_keeps_state_witness:
  "\<not> ok (Response 500) \<and> \<not> ok Rejected \<and>
   handleSubmit browser visitor (\<lambda>_. Response 500) (lit ''Testimonial Deep-Dive'')
       (Map.empty(draftKey \<mapsto> yesterday), typing) =
     (Map.empty(draftKey \<mapsto> yesterday),
      typing\<lparr> submitError :=
                Some (lit ''Unable to submit. Please check your connection and try again.'') \<rparr>) \<and>
   handleSubmit_settle (lit ''Testimonial Deep-Dive'') Rejected
       (Map.empty(draftKey \<mapsto> yesterday), handleSubmit_begin typing) =
     (Map.empty(draftKey \<mapsto> yesterday),
      typing\<lparr> submitError :=
                Some (lit ''Unable to submit. Please check your connection and try again.'') \<rparr>)"
  using submit_failure_keeps_state
    [where s = typing and response = "Response 500" and formType = "lit ''Testimonial Deep-Dive''"
       and ls = "Map.empty(draftKey \<mapsto> yesterday)" and P = browser and c = visitor
       and fetch = "\<lambda>_. Response 500"]
    submit_failure_keeps_state
    [where s = typing and response = Rejected and formType = "lit ''Testimonial Deep-Dive''"
       and ls = "Map.empty(draftKey \<mapsto> yesterday)" and s' = "handleSubmit_begin typing"]
  by (simp add: typing_def initial_def)

text \<open>
  C7. When the response has a status from 200 to 299, the draft is removed from local
  storage, \<^verbatim>\<open>formData.formType\<close> is the label of the submitted track and the page is
  the success page.
\<close>

theorem submit_success:
  "200 \<le> status \<Longrightarrow> status \<le> 299 \<Longrightarrow>
     handleSubmit_settle formType (Response status) (ls, s) =
       (ls(draftKey := None),
        s\<lparr> currentPage := success,
           formData := AList.update (lit ''formType'') formType (formData s),
           isSubmitting := False \<rparr>) \<and>
     fst (handleSubmit_settle formType (Response status) (ls, s)) draftKey = None \<and>
     map_of (formData (snd (handleSubmit_settle formType (Response status) (ls, s))))
       (lit ''formType'') = Some formType \<and>
     currentPage (snd (handleSubmit_settle formType (Response status) (ls, s))) = success \<and>
     (fetch (body P c formType s) = Response status \<longrightarrow>
        handleSubmit P c fetch formType (ls, s) =
          (ls(draftKey := None),
           s\<lparr> currentPage := success,
              formData := AList.update (lit ''formType'') formType (formData s),
              isSubmitting := False, submitError := None \<rparr>))"
  by (simp add: handleSubmit_settle_def handleSubmit_def handleSubmit_begin_def update_conv')

theorem submit_success_witness:
  "(200::int) \<le> 204 \<and> (204::int) \<le> 299 \<and>
   handleSubmit browser visitor (\<lambda>_. Response 204) (lit ''Testimonial Deep-Dive'')
       (Map.empty(draftKey \<mapsto> yesterday), typing) =
     (Map.empty,
      typing\<lparr> currentPage := success,
              formData := [(lit ''name'', lit ''Ada''),
                           (lit ''formType'', lit ''Testimonial Deep-Dive'')] \<rparr>)"
  using submit_success
    [where status = 204 and formType = "lit ''Testimonial Deep-Dive''"
       and ls = "Map.empty(draftKey \<mapsto> yesterday)" and s = typing and P = browser
       and c = visitor and fetch = "\<lambda>_. Response 204"]
  by (simp add: typing_def initial_def lit_def ch_def)

end
